theory Spec2Isabelle
  imports Main "HOL-Library.Word" "HOL-Library.Multiset"
begin

section \<open>Machine integers, instants and durations\<close>

text \<open>
  Go's \<^verbatim>\<open>int\<close> (on a 64-bit platform) and \<^verbatim>\<open>int64\<close> are 64-bit
  two's complement integers: arithmetic wraps, \<open>sint\<close> reads the signed value.
  A \<^verbatim>\<open>time.Duration\<close> is an \<^verbatim>\<open>int64\<close> count of nanoseconds.
  A \<^verbatim>\<open>time.Time\<close> is modelled by its position on the time line, in
  nanoseconds since the Unix epoch; the location and the monotonic clock reading of the
  standard library's representation are not modelled.
\<close>

type_synonym go_int = "64 word"
type_synonym int64 = "64 word"
type_synonym go_duration = "64 word"
type_synonym instant = int

definition Second :: go_duration where
  "Second = 1000000000"

definition Minute :: go_duration where
  "Minute = 60 * Second"

definition maxDuration :: int where
  "maxDuration = 2 ^ 63 - 1"

definition minDuration :: int where
  "minDuration = - (2 ^ 63)"

text \<open>\<^verbatim>\<open>t.Add(d)\<close>: the instant \<open>d\<close> nanoseconds after \<open>t\<close>.\<close>

definition Add :: "instant \<Rightarrow> go_duration \<Rightarrow> instant" where
  "Add t d = t + sint d"

text \<open>
  \<^verbatim>\<open>t.Sub(u)\<close>: the duration \<open>t - u\<close>; when it does not fit a Duration the
  maximum (or minimum) duration is returned.
\<close>

definition Sub :: "instant \<Rightarrow> instant \<Rightarrow> go_duration" where
  "Sub t u =
     (if t - u > maxDuration then word_of_int maxDuration
      else if t - u < minDuration then word_of_int minDuration
      else word_of_int (t - u))"

text \<open>\<^verbatim>\<open>time.Since(ts)\<close> is \<^verbatim>\<open>time.Now().Sub(ts)\<close>; the clock is a parameter.\<close>

definition Since :: "instant \<Rightarrow> instant \<Rightarrow> go_duration" where
  "Since now ts = Sub now ts"

text \<open>\<^verbatim>\<open>t.Unix()\<close>: whole seconds since the epoch (rounded down), as an int64.\<close>

definition Unix :: "instant \<Rightarrow> int64" where
  "Unix t = word_of_int (t div 1000000000)"

text \<open>Go's integer division truncates towards zero.\<close>

definition go_quot :: "int64 \<Rightarrow> int64 \<Rightarrow> int64" where
  "go_quot a b = word_of_int (sgn (sint a) * sgn (sint b) * (\<bar>sint a\<bar> div \<bar>sint b\<bar>))"

section \<open>Pointers to instants\<close>

text \<open>
  \<^verbatim>\<open>*time.Time\<close> fields are addresses into a store of instants. Go has no
  dangling pointers, so the store is total; \<open>nxt\<close> is the next unused address.
  \<open>None\<close> is the nil pointer.
\<close>

type_synonym addr = nat

record heap =
  cells :: "addr \<Rightarrow> instant"
  nxt :: addr

definition alloc :: "instant \<Rightarrow> heap \<Rightarrow> addr \<times> heap" where
  "alloc t h = (nxt h, h\<lparr>cells := (cells h)(nxt h := t), nxt := Suc (nxt h)\<rparr>)"

text \<open>\<^verbatim>\<open>*p = t\<close>: a write through the pointer \<open>p\<close>.\<close>

definition store :: "addr \<Rightarrow> instant \<Rightarrow> heap \<Rightarrow> heap" where
  "store p t h = h\<lparr>cells := (cells h)(p := t)\<rparr>"

datatype panic = NilDereference | NilMapWrite

section \<open>TimeEntry\<close>

text \<open>
  The struct of \<^verbatim>\<open>session.go\<close>. \<open>Pid\<close> and \<open>Tid\<close> (\<^verbatim>\<open>*int\<close>) are never
  written through, so they are optional values. \<open>Tags\<close> is the contents of the slice.
\<close>

record TimeEntry =
  Wid :: go_int
  ID :: go_int
  Pid :: "go_int option"
  Tid :: "go_int option"
  Description :: string
  Stop :: "addr option"
  Start :: "addr option"
  Tags :: "string list"
  Duration :: int64
  DurOnly :: bool
  Billable :: bool

definition IsRunning :: "TimeEntry \<Rightarrow> bool" where
  "IsRunning e = (Duration e <s 0)"

subsection \<open>Tags\<close>






subsection \<open>Reading the instants\<close>

text \<open>The zero \<^verbatim>\<open>time.Time{}\<close> is January 1 of year 1, 00:00 UTC.\<close>

definition zeroTime :: instant where
  "zeroTime = - 62135596800 * 1000000000"

definition StartTime :: "heap \<Rightarrow> TimeEntry \<Rightarrow> instant" where
  "StartTime h e = (case Start e of Some p \<Rightarrow> cells h p | None \<Rightarrow> zeroTime)"

definition StopTime :: "heap \<Rightarrow> TimeEntry \<Rightarrow> instant" where
  "StopTime h e = (case Stop e of Some p \<Rightarrow> cells h p | None \<Rightarrow> zeroTime)"

subsection \<open>Copy\<close>

text \<open>
  \<^verbatim>\<open>newEntry := *e\<close> copies the struct, the two pointers included. The tags get a
  fresh backing array with the same contents. \<^verbatim>\<open>*newEntry.Start = *e.Start\<close> writes
  the instant \<open>e.Start\<close> points to into the cell \<open>newEntry.Start\<close> points to.
\<close>

definition assign_through :: "addr option \<Rightarrow> addr option \<Rightarrow> heap \<Rightarrow> panic + heap" where
  "assign_through dst src h =
     (case src of
        None \<Rightarrow> Inl NilDereference
      | Some p \<Rightarrow> (case dst of None \<Rightarrow> Inl NilDereference | Some q \<Rightarrow> Inr (store q (cells h p) h)))"

definition Copy :: "heap \<Rightarrow> TimeEntry \<Rightarrow> panic + (heap \<times> TimeEntry)" where
  "Copy h e =
     (let newEntry = e;
          newEntry = newEntry\<lparr>Tags := Tags e\<rparr>
      in case (if Start e \<noteq> None then assign_through (Start newEntry) (Start e) h else Inr h) of
           Inl x \<Rightarrow> Inl x
         | Inr h1 \<Rightarrow>
             (case (if Stop e \<noteq> None then assign_through (Stop newEntry) (Stop e) h1 else Inr h1) of
                Inl x \<Rightarrow> Inl x
              | Inr h2 \<Rightarrow> Inr (h2, newEntry)))"

subsection \<open>Lifecycle mutators\<close>

text \<open>
  The receiver \<^verbatim>\<open>e *TimeEntry\<close> is passed in and returned together with the store.
  \<open>Inl\<close> is a panic; a returned \<^verbatim>\<open>error\<close> is \<open>Some\<close> of its message, \<open>None\<close> is
  \<^verbatim>\<open>nil\<close>. \<^verbatim>\<open>&newStop\<close> and \<^verbatim>\<open>&start\<close> are fresh cells.
\<close>

definition SetDuration ::
  "int64 \<Rightarrow> heap \<Rightarrow> TimeEntry \<Rightarrow> panic + (string option \<times> heap \<times> TimeEntry)" where
  "SetDuration duration h e =
     (if IsRunning e then Inr (Some ''TimeEntry must be stopped'', h, e)
      else
        (let e1 = e\<lparr>Duration := duration\<rparr>
         in case Start e1 of
              None \<Rightarrow> Inl NilDereference
            | Some p \<Rightarrow>
                (let newStop = Add (cells h p) (duration * Second);
                     (q, h1) = alloc newStop h
                 in Inr (None, h1, e1\<lparr>Stop := Some q\<rparr>))))"

definition SetStartTime ::
  "instant \<Rightarrow> bool \<Rightarrow> heap \<Rightarrow> TimeEntry \<Rightarrow> panic + (heap \<times> TimeEntry)" where
  "SetStartTime start updateEnd h e =
     (let (p, h1) = alloc start h;
          e1 = e\<lparr>Start := Some p\<rparr>
      in if \<not> IsRunning e1 then
           (if updateEnd then
              (let newStop = Add start (Duration e1 * Second);
                   (q, h2) = alloc newStop h1
               in Inr (h2, e1\<lparr>Stop := Some q\<rparr>))
            else
              (case Stop e1 of
                 None \<Rightarrow> Inl NilDereference
               | Some q \<Rightarrow> Inr (h1, e1\<lparr>Duration := Unix (cells h1 q) - Unix (cells h1 p)\<rparr>)))
         else Inr (h1, e1))"

definition SetStopTime ::
  "instant \<Rightarrow> heap \<Rightarrow> TimeEntry \<Rightarrow> panic + (string option \<times> heap \<times> TimeEntry)" where
  "SetStopTime stop h e =
     (if IsRunning e then Inr (Some ''TimeEntry must be stopped'', h, e)
      else
        (let (q, h1) = alloc stop h;
             e1 = e\<lparr>Stop := Some q\<rparr>
         in case Start e1 of
              None \<Rightarrow> Inl NilDereference
            | Some p \<Rightarrow> Inr (None, h1, e1\<lparr>Duration := go_quot (Sub stop (cells h1 p)) Second\<rparr>)))"

subsection \<open>Well-formed pointers and the spec's arithmetic\<close>

text \<open>Every pointer of an entry refers to an allocated cell, as in any Go program.\<close>

definition valid :: "heap \<Rightarrow> TimeEntry \<Rightarrow> bool" where
  "valid h e =
     ((case Start e of None \<Rightarrow> True | Some p \<Rightarrow> p < nxt h) \<and>
      (case Stop e of None \<Rightarrow> True | Some q \<Rightarrow> q < nxt h))"

text \<open>
  The spec's words: a difference of instants "in whole seconds", the fraction of a second
  dropped; and an instant that lies on a whole second.
\<close>

definition whole_seconds :: "int \<Rightarrow> int" where
  "whole_seconds ns = sgn ns * (\<bar>ns\<bar> div 1000000000)"

definition on_second :: "instant \<Rightarrow> bool" where
  "on_second t = (t mod 1000000000 = 0)"

subsection \<open>Sequences of mutator calls\<close>

text \<open>
  A call of one of the three mutators with its arguments, and a client that makes a
  sequence of such calls on one entry. \<open>run_calls\<close> is \<open>Some\<close> of the states reached
  after each call when every call succeeds (returns normally, with a nil error), and
  \<open>None\<close> as soon as one call returns an error or panics.
\<close>

datatype call = CallSetDuration int64 | CallSetStartTime instant bool | CallSetStopTime instant

fun apply_call :: "call \<Rightarrow> heap \<Rightarrow> TimeEntry \<Rightarrow> panic + (string option \<times> heap \<times> TimeEntry)" where
  "apply_call (CallSetDuration d) h e = SetDuration d h e"
| "apply_call (CallSetStartTime s u) h e =
     (case SetStartTime s u h e of Inl x \<Rightarrow> Inl x | Inr (h', e') \<Rightarrow> Inr (None, h', e'))"
| "apply_call (CallSetStopTime s) h e = SetStopTime s h e"

fun run_calls :: "call list \<Rightarrow> heap \<Rightarrow> TimeEntry \<Rightarrow> (heap \<times> TimeEntry) list option" where
  "run_calls [] h e = Some []"
| "run_calls (c # cs) h e =
     (case apply_call c h e of
        Inr (None, h', e') \<Rightarrow>
          (case run_calls cs h' e' of None \<Rightarrow> None | Some sts \<Rightarrow> Some ((h', e') # sts))
      | _ \<Rightarrow> None)"

text \<open>The spec's identity: the duration is the stop time minus the start time, in whole seconds.\<close>

definition duration_identity :: "heap \<Rightarrow> TimeEntry \<Rightarrow> bool" where
  "duration_identity h e = (sint (Duration e) = whole_seconds (StopTime h e - StartTime h e))"

fun identity_in_all :: "(heap \<times> TimeEntry) list \<Rightarrow> bool" where
  "identity_in_all [] = True"
| "identity_in_all ((h, e) # sts) = (duration_identity h e \<and> \<not> IsRunning e \<and> identity_in_all sts)"

text \<open>
  A call that keeps a stopped entry stopped and within the range of a Duration: the new
  span from start to stop is between 0 and \<open>2^63 - 1\<close> nanoseconds (9223372036 whole
  seconds), and a new start does not carry a larger fraction of a second than the stop
  time it is subtracted from.
\<close>

fun admissible :: "call \<Rightarrow> heap \<Rightarrow> TimeEntry \<Rightarrow> bool" where
  "admissible (CallSetDuration d) h e = (0 \<le> sint d \<and> sint d \<le> 9223372036)"
| "admissible (CallSetStartTime s u) h e =
     (if u then sint (Duration e) \<le> 9223372036
      else 0 \<le> StopTime h e - s \<and> StopTime h e - s \<le> maxDuration
           \<and> s mod 1000000000 \<le> StopTime h e mod 1000000000)"
| "admissible (CallSetStopTime s) h e =
     (0 \<le> s - StartTime h e \<and> s - StartTime h e \<le> maxDuration)"

fun admissible_calls :: "call list \<Rightarrow> heap \<Rightarrow> TimeEntry \<Rightarrow> bool" where
  "admissible_calls [] h e = True"
| "admissible_calls (c # cs) h e =
     (admissible c h e \<and>
      (case apply_call c h e of
         Inr (None, h', e') \<Rightarrow> admissible_calls cs h' e'
       | _ \<Rightarrow> False))"

section \<open>The resource cache\<close>

text \<open>
  \<^verbatim>\<open>resource.Type\<close> with its four constants, and \<^verbatim>\<open>resource.TypeMap\<close>, whose keys
  \<^verbatim>\<open>New\<close> ranges over.
\<close>

datatype Type = Clients | Projects | Tags_kind | TimeEntries

definition TypeMap :: "(Type \<times> string) list" where
  "TypeMap = [(Clients, ''clients''), (Projects, ''projects''), (Tags_kind, ''tags''),
     (TimeEntries, ''time_entries'')]"

definition all_types :: "Type list" where
  "all_types = [Clients, Projects, Tags_kind, TimeEntries]"

definition hits :: go_int where
  "hits = 0"

definition misses :: go_int where
  "misses = 1"

text \<open>
  A value of type \<^verbatim>\<open>any\<close> is \<open>None\<close> (nil) or \<open>Some\<close> value. A Go map is a partial
  function; the nil map and a missing key both read as \<open>None\<close>. The mutex is left out:
  the model is one thread of calls. The clock (\<^verbatim>\<open>time.Now()\<close>) is the parameter
  \<open>now\<close> of the operations that read it.
\<close>

type_synonym 'v any = "'v option"

record 'v ResourcesCache =
  caches :: "Type \<rightharpoonup> (go_int \<rightharpoonup> (go_int \<rightharpoonup> 'v any))"
  timestamp :: "Type \<rightharpoonup> instant"
  stats :: "Type \<rightharpoonup> (go_int \<rightharpoonup> go_int)"
  ttl :: go_duration

definition Clear :: "Type \<Rightarrow> 'v ResourcesCache \<Rightarrow> 'v ResourcesCache" where
  "Clear rt c = c\<lparr>caches := (caches c)(rt \<mapsto> Map.empty)\<rparr>"

definition New :: "go_duration \<Rightarrow> instant \<Rightarrow> 'v ResourcesCache" where
  "New ttl0 now =
     (let ttl1 = (if ttl0 = 0 then 5 * Minute else ttl0);
          r = \<lparr>caches = Map.empty, timestamp = Map.empty, stats = Map.empty, ttl = ttl1\<rparr>
      in foldl (\<lambda>r rt. Clear rt (r\<lparr>timestamp := (timestamp r)(rt \<mapsto> now),
                                       stats := (stats r)(rt \<mapsto> Map.empty)\<rparr>))
           r (map fst TypeMap))"

text \<open>
  The body of the loop of \<^verbatim>\<open>expireCacheIf\<close> for one key of \<^verbatim>\<open>c.timestamp\<close>. An
  iteration touches only the entries of its own key, so the order in which the keys are
  visited does not matter; the model visits them in the order of \<open>all_types\<close>.
\<close>

definition expire_one :: "instant \<Rightarrow> 'v ResourcesCache \<Rightarrow> Type \<Rightarrow> 'v ResourcesCache" where
  "expire_one now c rt =
     (case timestamp c rt of
        None \<Rightarrow> c
      | Some ts \<Rightarrow>
          if ttl c <s Since now ts
          then c\<lparr>caches := (caches c)(rt \<mapsto> Map.empty), timestamp := (timestamp c)(rt \<mapsto> now)\<rparr>
          else c)"

definition expireCacheIf :: "instant \<Rightarrow> 'v ResourcesCache \<Rightarrow> 'v ResourcesCache" where
  "expireCacheIf now c = foldl (expire_one now) c all_types"

text \<open>
  \<^verbatim>\<open>c.stats[rt][k]++\<close>: a missing counter reads as 0; writing into the nil map of a
  kind without statistics panics.
\<close>

definition incr :: "Type \<Rightarrow> go_int \<Rightarrow> 'v ResourcesCache \<Rightarrow> panic + 'v ResourcesCache" where
  "incr rt k c =
     (case stats c rt of
        None \<Rightarrow> Inl NilMapWrite
      | Some st \<Rightarrow>
          Inr (c\<lparr>stats := (stats c)(rt \<mapsto> st(k \<mapsto> (case st k of None \<Rightarrow> 0 | Some n \<Rightarrow> n) + 1))\<rparr>))"

definition Get ::
  "instant \<Rightarrow> Type \<Rightarrow> go_int \<Rightarrow> go_int \<Rightarrow> 'v ResourcesCache
   \<Rightarrow> panic + (('v any \<times> bool) \<times> 'v ResourcesCache)" where
  "Get now rt wid eid c0 =
     (let c = expireCacheIf now c0
      in case caches c rt of
           None \<Rightarrow>
             (case incr rt misses c of Inl x \<Rightarrow> Inl x | Inr c' \<Rightarrow> Inr ((None, False), c'))
         | Some part \<Rightarrow>
             (case part wid of
                None \<Rightarrow>
                  (case incr rt misses c of Inl x \<Rightarrow> Inl x | Inr c' \<Rightarrow> Inr ((None, False), c'))
              | Some ws \<Rightarrow>
                  (let (data, ok) = (case ws eid of None \<Rightarrow> (None, False) | Some v \<Rightarrow> (v, True))
                   in case incr rt hits c of Inl x \<Rightarrow> Inl x | Inr c' \<Rightarrow> Inr ((data, ok), c'))))"



definition Set :: "Type \<Rightarrow> go_int \<Rightarrow> go_int \<Rightarrow> 'v any \<Rightarrow> 'v ResourcesCache \<Rightarrow> 'v ResourcesCache" where
  "Set rt wid eid data c =
     (let part = (case caches c rt of None \<Rightarrow> Map.empty | Some p \<Rightarrow> p);
          ws = (case part wid of None \<Rightarrow> Map.empty | Some w \<Rightarrow> w)
      in c\<lparr>caches := (caches c)(rt \<mapsto> part(wid \<mapsto> ws(eid \<mapsto> data)))\<rparr>)"

definition GetTTL :: "'v ResourcesCache \<Rightarrow> go_duration" where
  "GetTTL c = ttl c"


text \<open>The hit and miss counters that \<^verbatim>\<open>Stats\<close> returns for a kind.\<close>

definition hit_count :: "'v ResourcesCache \<Rightarrow> Type \<Rightarrow> go_int" where
  "hit_count c rt =
     (case stats c rt of None \<Rightarrow> 0 | Some st \<Rightarrow> (case st hits of None \<Rightarrow> 0 | Some n \<Rightarrow> n))"

definition miss_count :: "'v ResourcesCache \<Rightarrow> Type \<Rightarrow> go_int" where
  "miss_count c rt =
     (case stats c rt of None \<Rightarrow> 0 | Some st \<Rightarrow> (case st misses of None \<Rightarrow> 0 | Some n \<Rightarrow> n))"

definition Stats :: "Type \<Rightarrow> 'v ResourcesCache \<Rightarrow> nat \<times> go_int \<times> go_int" where
  "Stats rt c =
     ((case caches c rt of None \<Rightarrow> 0 | Some part \<Rightarrow> card (dom part)), hit_count c rt, miss_count c rt)"

text \<open>
  The condition of the sweep for one kind: the kind has a last-reset timestamp and the
  time since then, as \<^verbatim>\<open>time.Since\<close> measures it, exceeds the TTL.
\<close>

definition expired :: "instant \<Rightarrow> 'v ResourcesCache \<Rightarrow> Type \<Rightarrow> bool" where
  "expired now c rt = (case timestamp c rt of None \<Rightarrow> False | Some ts \<Rightarrow> ttl c <s Since now ts)"

section \<open>Unstopping a time entry\<close>

subsection \<open>Resource URLs\<close>

text \<open>The \<^verbatim>\<open>resourceType\<close> of package toggl and its names (\<^verbatim>\<open>resourceTypeMap\<close>).\<close>

datatype resourceType = clients | projects | tags | timeEntries

fun resourceType_String :: "resourceType \<Rightarrow> string" where
  "resourceType_String clients = ''clients''"
| "resourceType_String projects = ''projects''"
| "resourceType_String tags = ''tags''"
| "resourceType_String timeEntries = ''time_entries''"

text \<open>\<^verbatim>\<open>%d\<close> of \<^verbatim>\<open>fmt.Sprintf\<close>: the decimal digits, with a minus sign when negative.\<close>

definition digit_char :: "nat \<Rightarrow> char" where
  "digit_char n = ''0123456789'' ! n"

fun nat_digits :: "nat \<Rightarrow> string" where
  "nat_digits n = (if n < 10 then [digit_char n] else nat_digits (n div 10) @ [digit_char (n mod 10)])"

declare nat_digits.simps [simp del]

definition format_int :: "go_int \<Rightarrow> string" where
  "format_int w = (if sint w < 0 then ''-'' @ nat_digits (nat (- sint w)) else nat_digits (nat (sint w)))"

definition generateResourceURL :: "resourceType \<Rightarrow> go_int \<Rightarrow> string" where
  "generateResourceURL rt wid = ''/workspaces/'' @ format_int wid @ ''/'' @ resourceType_String rt"

definition generateResourceURLWithID :: "resourceType \<Rightarrow> go_int \<Rightarrow> go_int \<Rightarrow> string" where
  "generateResourceURLWithID rt wid eid = generateResourceURL rt wid @ ''/'' @ format_int eid"

definition TogglAPI :: string where
  "TogglAPI = ''https://api.track.toggl.com/api/v9''"

subsection \<open>The request for a new entry\<close>

text \<open>
  The struct \<^verbatim>\<open>timeEntryCreate\<close>; the fields that share a name with a field of
  \<open>TimeEntry\<close> carry the suffix \<open>_c\<close>.
\<close>

record timeEntryCreate =
  Billable_c :: bool
  Description_c :: string
  Duration_c :: go_int
  ProjectID :: "go_int option"
  TaskID :: "go_int option"
  Start_c :: "addr option"
  Stop_c :: "addr option"
  Tags_c :: "string list"
  WorkspaceId :: go_int

definition withMetadataFromTimeEntry :: "timeEntryCreate \<Rightarrow> TimeEntry \<Rightarrow> timeEntryCreate" where
  "withMetadataFromTimeEntry t timeEntry =
     t\<lparr>ProjectID := Pid timeEntry, TaskID := Tid timeEntry, Tags_c := Tags timeEntry,
       Billable_c := Billable timeEntry\<rparr>"

definition newStartEntryRequestData ::
  "string \<Rightarrow> go_int \<Rightarrow> instant \<Rightarrow> heap \<Rightarrow> timeEntryCreate \<times> heap" where
  "newStartEntryRequestData description workspaceId now h =
     (let (p, h1) = alloc now h
      in (\<lparr>Billable_c = False, Description_c = description, Duration_c = - 1, ProjectID = None,
           TaskID = None, Start_c = Some p, Stop_c = None, Tags_c = [], WorkspaceId = workspaceId\<rparr>,
          h1))"

text \<open>The zero value \<^verbatim>\<open>TimeEntry{}\<close>.\<close>

definition TimeEntry_zero :: TimeEntry where
  "TimeEntry_zero = \<lparr>Wid = 0, ID = 0, Pid = None, Tid = None, Description = [], Stop = None,
     Start = None, Tags = [], Duration = 0, DurOnly = False, Billable = False\<rparr>"

subsection \<open>The transport\<close>

text \<open>
  What lies outside the program is a parameter: the JSON encoder and decoder and the
  HTTP round trip of \<^verbatim>\<open>session.request\<close> against a remote service with a state of
  its own. An \<^verbatim>\<open>error\<close> is its message, \<open>None\<close> is \<^verbatim>\<open>nil\<close>. The world records
  every request handed to \<^verbatim>\<open>session.request\<close> (method, URL, body).
\<close>

record 'srv transport =
  marshal :: "heap \<Rightarrow> timeEntryCreate \<Rightarrow> string + string"
  request :: "string \<Rightarrow> string \<Rightarrow> string option \<Rightarrow> 'srv \<Rightarrow> (string \<times> string option) \<times> 'srv"
  unmarshal :: "string \<Rightarrow> heap \<Rightarrow> (string + TimeEntry) \<times> heap"

record 'srv world =
  server :: 'srv
  sent :: "(string \<times> string \<times> string option) list"

definition session_request ::
  "'srv transport \<Rightarrow> string \<Rightarrow> string \<Rightarrow> string option \<Rightarrow> 'srv world
   \<Rightarrow> (string \<times> string option) \<times> 'srv world" where
  "session_request tr method requestURL body w =
     (let (r, srv) = request tr method requestURL body (server w)
      in (r, w\<lparr>server := srv, sent := sent w @ [(method, requestURL, body)]\<rparr>))"

definition post ::
  "'srv transport \<Rightarrow> string \<Rightarrow> string \<Rightarrow> timeEntryCreate \<Rightarrow> heap \<Rightarrow> 'srv world
   \<Rightarrow> (string \<times> string option) \<times> 'srv world" where
  "post tr requestURL path data h w =
     (let requestURL = requestURL @ path
      in case marshal tr h data of
           Inl err \<Rightarrow> (([], Some err), w)
         | Inr body \<Rightarrow> session_request tr ''POST'' requestURL (Some body) w)"

definition delete ::
  "'srv transport \<Rightarrow> string \<Rightarrow> string \<Rightarrow> 'srv world \<Rightarrow> (string \<times> string option) \<times> 'srv world" where
  "delete tr requestURL path w =
     (let requestURL = requestURL @ path
      in session_request tr ''DELETE'' requestURL None w)"

definition handleTimeEntryResponse ::
  "'srv transport \<Rightarrow> string \<times> string option \<Rightarrow> heap \<Rightarrow> (TimeEntry \<times> string option) \<times> heap" where
  "handleTimeEntryResponse tr resp h =
     (case resp of
        (data, Some err) \<Rightarrow> ((TimeEntry_zero, Some err), h)
      | (data, None) \<Rightarrow>
          (case unmarshal tr data h of
             (Inl err, h1) \<Rightarrow> ((TimeEntry_zero, Some err), h1)
           | (Inr entry, h1) \<Rightarrow> ((entry, None), h1)))"

definition startTimeEntry ::
  "'srv transport \<Rightarrow> timeEntryCreate \<Rightarrow> heap \<Rightarrow> 'srv world
   \<Rightarrow> (TimeEntry \<times> string option) \<times> heap \<times> 'srv world" where
  "startTimeEntry tr timeEntry h w =
     (let (resp, w1) = post tr TogglAPI (generateResourceURL timeEntries (WorkspaceId timeEntry))
                         timeEntry h w;
          (r, h1) = handleTimeEntryResponse tr resp h
      in (r, h1, w1))"

definition DeleteTimeEntry ::
  "'srv transport \<Rightarrow> TimeEntry \<Rightarrow> 'srv world \<Rightarrow> (string \<times> string option) \<times> 'srv world" where
  "DeleteTimeEntry tr timer w =
     delete tr TogglAPI (generateResourceURLWithID timeEntries (Wid timer) (ID timer)) w"

definition UnstopTimeEntry ::
  "'srv transport \<Rightarrow> TimeEntry \<Rightarrow> instant \<Rightarrow> heap \<Rightarrow> 'srv world
   \<Rightarrow> (TimeEntry \<times> string option) \<times> heap \<times> 'srv world" where
  "UnstopTimeEntry tr timer now h w =
     (let (entry, h1) = newStartEntryRequestData (Description timer) (Wid timer) now h;
          entry = withMetadataFromTimeEntry entry timer;
          entry = entry\<lparr>Start_c := Start timer\<rparr>;
          ((newEntry, err), h2, w1) = startTimeEntry tr entry h1 w
      in case err of
           Some e \<Rightarrow> ((TimeEntry_zero, Some e), h2, w1)
         | None \<Rightarrow>
             (let ((data, err2), w2) = DeleteTimeEntry tr timer w1
              in case err2 of
                   Some e2 \<Rightarrow> ((TimeEntry_zero, Some (''old entry not deleted: '' @ e2)), h2, w2)
                 | None \<Rightarrow> ((newEntry, None), h2, w2)))"

text \<open>The request \<open>UnstopTimeEntry\<close> builds from \<open>timer\<close>, written out field by field.\<close>

definition unstop_request :: "TimeEntry \<Rightarrow> timeEntryCreate" where
  "unstop_request timer =
     \<lparr>Billable_c = Billable timer, Description_c = Description timer, Duration_c = - 1,
      ProjectID = Pid timer, TaskID = Tid timer, Start_c = Start timer, Stop_c = None,
      Tags_c = Tags timer, WorkspaceId = Wid timer\<rparr>"

section \<open>Concrete inputs\<close>

definition entry0 :: TimeEntry where
  "entry0 = \<lparr>Wid = 1, ID = 7, Pid = None, Tid = None, Description = ''work'', Stop = None,
     Start = None, Tags = [''a'', ''b''], Duration = 0, DurOnly = False, Billable = False\<rparr>"

text \<open>A store with two instants: second 1000 at address 0 and second 1600 at address 1.\<close>

definition heap1 :: heap where
  "heap1 = \<lparr>cells = (\<lambda>_. 0)(0 := 1000000000000, 1 := 1600000000000), nxt = 2\<rparr>"

text \<open>A stopped entry: started at second 1000, stopped at second 1600, duration 600.\<close>

definition entry1 :: TimeEntry where
  "entry1 = entry0\<lparr>Start := Some 0, Stop := Some 1, Duration := 600\<rparr>"

text \<open>A running entry started at second 1000.\<close>

definition entry2 :: TimeEntry where
  "entry2 = entry0\<lparr>Start := Some 0, Duration := - 1\<rparr>"

text \<open>A stopped entry whose duration is \<open>10^10\<close> seconds (about 317 years).\<close>

definition entry3 :: TimeEntry where
  "entry3 = entry1\<lparr>Duration := 10000000000\<rparr>"

text \<open>
  A cache made at instant 0 with the default TTL of five minutes, and the same cache
  after one project (id 1 of workspace 1) has been stored.
\<close>

definition cache0 :: "nat ResourcesCache" where
  "cache0 = New 0 0"

definition cache1 :: "nat ResourcesCache" where
  "cache1 = Set Projects 1 1 (Some 42) cache0"

text \<open>
  A remote service that counts the requests it has answered. It accepts every POST; it
  answers a DELETE with an error when \<open>refuse\<close> is set. The encoder writes the
  description, the decoder yields the running entry \<open>entry2\<close> with id 8.
\<close>

definition sample_transport :: "bool \<Rightarrow> nat transport" where
  "sample_transport refuse =
     \<lparr>marshal = (\<lambda>h e. Inr (Description_c e)),
      request = (\<lambda>method url body n.
         if method = ''DELETE'' \<and> refuse then (([], Some ''response error: 404 Not Found''), Suc n)
         else ((''{}'', None), Suc n)),
      unmarshal = (\<lambda>data h. (Inr (entry2\<lparr>ID := 8\<rparr>), h))\<rparr>"

text \<open>A remote service that answers every request with an error.\<close>

definition failing_transport :: "nat transport" where
  "failing_transport =
     \<lparr>marshal = (\<lambda>h e. Inr (Description_c e)),
      request = (\<lambda>method url body n. (([], Some ''response error: 500 Internal Server Error''), Suc n)),
      unmarshal = (\<lambda>data h. (Inr (entry2\<lparr>ID := 8\<rparr>), h))\<rparr>"

definition world0 :: "nat world" where
  "world0 = \<lparr>server = 0, sent = []\<rparr>"

section \<open>Arithmetic of durations\<close>

lemma sint_word_of_int_fits:
  assumes "- (2 ^ 63) \<le> k" "k < 2 ^ 63"
  shows "sint (word_of_int k :: 64 word) = k"
proof -
  have "sint (word_of_int k :: 64 word) = signed_take_bit 63 k"
    by (simp only: sint_sbintrunc') simp
  also have "\<dots> = k"
    using assms by (intro signed_take_bit_int_eq_self) simp_all
  finally show ?thesis .
qed

lemma sint_mult_Second:
  assumes "- 9223372036 \<le> sint d" "sint d \<le> 9223372036"
  shows "sint (d * Second) = sint d * 1000000000"
proof -
  have "d * Second = word_of_int (sint d * 1000000000)"
    by (simp add: Second_def)
  moreover have "sint (word_of_int (sint d * 1000000000) :: 64 word) = sint d * 1000000000"
    using assms by (intro sint_word_of_int_fits) simp_all
  ultimately show ?thesis by (simp only:)
qed

lemma sint_Sub_exact:
  assumes "minDuration \<le> t - u" "t - u \<le> maxDuration"
  shows "sint (Sub t u) = t - u"
proof -
  have "Sub t u = word_of_int (t - u)"
    using assms unfolding Sub_def by (simp only: not_less [symmetric] if_False) 
  moreover have "sint (word_of_int (t - u) :: 64 word) = t - u"
    using assms by (intro sint_word_of_int_fits) (simp_all add: minDuration_def maxDuration_def)
  ultimately show ?thesis by (simp only:)
qed

lemma IsRunning_iff: "IsRunning e \<longleftrightarrow> sint (Duration e) < 0"
  by (simp add: IsRunning_def word_sless_alt)

lemma sint_Second: "sint Second = 1000000000"
  by (simp add: Second_def)

lemma sint_go_quot_Second: "sint (go_quot a Second) = whole_seconds (sint a)"
proof -
  let ?q = "sgn (sint a) * (\<bar>sint a\<bar> div 1000000000)"
  have q: "go_quot a Second = word_of_int ?q"
    by (simp only: go_quot_def sint_Second) simp
  have b: "\<bar>sint a\<bar> div 1000000000 \<le> \<bar>sint a\<bar>"
    by (cases "0 \<le> sint a") simp_all
  have r: "- (2 ^ 63) \<le> sint a" "sint a < 2 ^ 63"
    using sint_ge [of a] sint_lt [of a] by simp_all
  have nn: "0 \<le> \<bar>sint a\<bar> div 1000000000" by simp
  have "- (2 ^ 63) \<le> ?q \<and> ?q < 2 ^ 63"
    using b r nn by (cases "sint a" "0::int" rule: linorder_cases) (simp_all add: sgn_if)
  then have "sint (word_of_int ?q :: 64 word) = ?q"
    by (intro sint_word_of_int_fits) simp_all
  with q show ?thesis by (simp only: whole_seconds_def)
qed

lemma sint_Unix_diff:
  assumes "- (2 ^ 63) \<le> t div 1000000000 - u div 1000000000"
    "t div 1000000000 - u div 1000000000 < 2 ^ 63"
  shows "sint (Unix t - Unix u) = t div 1000000000 - u div 1000000000"
proof -
  have "Unix t - Unix u = word_of_int (t div 1000000000 - u div 1000000000)"
    by (simp add: Unix_def)
  moreover have "sint (word_of_int (t div 1000000000 - u div 1000000000) :: 64 word)
      = t div 1000000000 - u div 1000000000"
    using assms by (rule sint_word_of_int_fits)
  ultimately show ?thesis by (simp only:)
qed

section \<open>Tag operations\<close>












section \<open>Lifecycle mutators\<close>

lemma alloc_simps:
  "fst (alloc t h) = nxt h"
  "cells (snd (alloc t h)) = (cells h)(nxt h := t)"
  "nxt (snd (alloc t h)) = Suc (nxt h)"
  by (simp_all add: alloc_def)

text \<open>
  C10. On a stopped entry the mutators dereference an instant: \<open>SetDuration\<close> and
  \<open>SetStopTime\<close> the start instant, \<open>SetStartTime\<close> with \<open>updateEnd = False\<close> the stop
  instant. When that instant is nil the call panics with a nil dereference instead of
  returning an error; when it is present the call returns normally.
\<close>

theorem mutators_need_present_instants:
  assumes "\<not> IsRunning e"
  shows "(Start e = None \<longrightarrow> SetDuration d h e = Inl NilDereference)
    \<and> (Start e \<noteq> None \<longrightarrow> (\<exists>h' e'. SetDuration d h e = Inr (None, h', e')))
    \<and> (Stop e = None \<longrightarrow> SetStartTime s False h e = Inl NilDereference)
    \<and> (Stop e \<noteq> None \<longrightarrow> (\<exists>h' e'. SetStartTime s False h e = Inr (h', e')))
    \<and> (Start e = None \<longrightarrow> SetStopTime s h e = Inl NilDereference)
    \<and> (Start e \<noteq> None \<longrightarrow> (\<exists>h' e'. SetStopTime s h e = Inr (None, h', e')))"
proof -
  have d1: "Start e = None \<longrightarrow> SetDuration d h e = Inl NilDereference"
    using assms by (simp add: SetDuration_def)
  have d2: "Start e \<noteq> None \<longrightarrow> (\<exists>h' e'. SetDuration d h e = Inr (None, h', e'))"
    using assms by (auto simp: SetDuration_def Let_def split: prod.splits)
  have s1: "Stop e = None \<longrightarrow> SetStartTime s False h e = Inl NilDereference"
    using assms by (simp add: SetStartTime_def IsRunning_def Let_def split: prod.splits)
  have s2: "Stop e \<noteq> None \<longrightarrow> (\<exists>h' e'. SetStartTime s False h e = Inr (h', e'))"
    using assms by (auto simp: SetStartTime_def IsRunning_def Let_def split: prod.splits)
  have t1: "Start e = None \<longrightarrow> SetStopTime s h e = Inl NilDereference"
    using assms by (simp add: SetStopTime_def Let_def split: prod.splits)
  have t2: "Start e \<noteq> None \<longrightarrow> (\<exists>h' e'. SetStopTime s h e = Inr (None, h', e'))"
    using assms by (auto simp: SetStopTime_def Let_def split: prod.splits)
  from d1 d2 s1 s2 t1 t2 show ?thesis by blast
qed

theorem mutators_need_present_instants_witness:
  "\<not> IsRunning entry0
   \<and> SetDuration 5 heap1 entry0 = Inl NilDereference
   \<and> SetStartTime 0 False heap1 entry0 = Inl NilDereference
   \<and> SetStopTime 0 heap1 entry0 = Inl NilDereference
   \<and> \<not> IsRunning entry1
   \<and> (\<exists>h' e'. SetDuration 5 heap1 entry1 = Inr (None, h', e'))
   \<and> (\<exists>h' e'. SetStartTime 0 False heap1 entry1 = Inr (h', e'))
   \<and> (\<exists>h' e'. SetStopTime 0 heap1 entry1 = Inr (None, h', e'))"
proof -
  have r0: "\<not> IsRunning entry0" by (simp add: IsRunning_iff entry0_def)
  have r1: "\<not> IsRunning entry1" by (simp add: IsRunning_iff entry1_def entry0_def)
  have n0: "Start entry0 = None" "Stop entry0 = None" by (simp_all add: entry0_def)
  have n1: "Start entry1 \<noteq> None" "Stop entry1 \<noteq> None" by (simp_all add: entry1_def)
  from mutators_need_present_instants [OF r0, of 5 heap1 0]
    mutators_need_present_instants [OF r1, of 5 heap1 0] r0 r1 n0 n1
  show ?thesis by blast
qed

subsection \<open>The mutators in closed form\<close>

lemma SetDuration_running:
  "IsRunning e \<Longrightarrow> SetDuration d h e = Inr (Some ''TimeEntry must be stopped'', h, e)"
  by (simp add: SetDuration_def)

lemma SetStopTime_running:
  "IsRunning e \<Longrightarrow> SetStopTime s h e = Inr (Some ''TimeEntry must be stopped'', h, e)"
  by (simp add: SetStopTime_def)

lemma SetDuration_stopped:
  "\<not> IsRunning e \<Longrightarrow> Start e = Some p \<Longrightarrow>
   SetDuration d h e =
     Inr (None, snd (alloc (Add (cells h p) (d * Second)) h), e\<lparr>Duration := d, Stop := Some (nxt h)\<rparr>)"
  by (simp add: SetDuration_def Let_def alloc_def)

lemma SetStopTime_stopped:
  "\<not> IsRunning e \<Longrightarrow> Start e = Some p \<Longrightarrow> p < nxt h \<Longrightarrow>
   SetStopTime s h e =
     Inr (None, snd (alloc s h),
          e\<lparr>Stop := Some (nxt h), Duration := go_quot (Sub s (cells h p)) Second\<rparr>)"
  by (simp add: SetStopTime_def Let_def alloc_def)

lemma SetStartTime_running:
  "IsRunning e \<Longrightarrow> SetStartTime s u h e = Inr (snd (alloc s h), e\<lparr>Start := Some (nxt h)\<rparr>)"
  by (simp add: SetStartTime_def Let_def alloc_def IsRunning_def)

lemma SetStartTime_stopped_updateEnd:
  "\<not> IsRunning e \<Longrightarrow>
   SetStartTime s True h e =
     Inr (snd (alloc (Add s (Duration e * Second)) (snd (alloc s h))),
          e\<lparr>Start := Some (nxt h), Stop := Some (Suc (nxt h))\<rparr>)"
  by (simp add: SetStartTime_def Let_def alloc_def IsRunning_def)

lemma SetStartTime_stopped_keepEnd:
  "\<not> IsRunning e \<Longrightarrow> Stop e = Some q \<Longrightarrow> q < nxt h \<Longrightarrow>
   SetStartTime s False h e =
     Inr (snd (alloc s h), e\<lparr>Start := Some (nxt h), Duration := Unix (cells h q) - Unix s\<rparr>)"
  by (simp add: SetStartTime_def Let_def alloc_def IsRunning_def)

lemma valid_StartD: "valid h e \<Longrightarrow> Start e = Some p \<Longrightarrow> p < nxt h"
  by (simp add: valid_def)

lemma valid_StopD: "valid h e \<Longrightarrow> Stop e = Some q \<Longrightarrow> q < nxt h"
  by (simp add: valid_def)

text \<open>
  C5, as stated, fails: on a stopped entry whose start instant is nil \<open>SetDuration\<close>
  does not succeed but panics, and for a duration of \<open>10^10\<close> seconds the product
  with \<open>Second\<close> wraps around in 64 bits, so that the stop time is not
  \<open>start + d\<close> seconds.
\<close>

theorem SetDuration_not_always_start_plus_d:
  "\<not> IsRunning entry0
   \<and> SetDuration 5 heap1 entry0 = Inl NilDereference
   \<and> \<not> IsRunning entry1
   \<and> SetDuration 10000000000 heap1 entry1 =
       Inr (None, snd (alloc (- 8446743073709551616) heap1),
            entry1\<lparr>Duration := 10000000000, Stop := Some 2\<rparr>)
   \<and> StartTime heap1 entry1 + 10000000000 * 1000000000 \<noteq> - 8446743073709551616"
proof -
  have r0: "\<not> IsRunning entry0" by (simp add: IsRunning_iff entry0_def)
  have r1: "\<not> IsRunning entry1" by (simp add: IsRunning_iff entry1_def entry0_def)
  have a: "SetDuration 5 heap1 entry0 = Inl NilDereference"
    using r0 by (simp add: SetDuration_def entry0_def)
  have s1: "Start entry1 = Some 0" by (simp add: entry1_def)
  have w: "Add (cells heap1 0) (10000000000 * Second) = - 8446743073709551616"
    by (simp add: Add_def heap1_def Second_def)
  have n: "nxt heap1 = 2" by (simp add: heap1_def)
  have b: "SetDuration 10000000000 heap1 entry1 =
       Inr (None, snd (alloc (- 8446743073709551616) heap1),
            entry1\<lparr>Duration := 10000000000, Stop := Some 2\<rparr>)"
    by (simp only: SetDuration_stopped [OF r1 s1] w n)
  have c: "StartTime heap1 entry1 + 10000000000 * 1000000000 \<noteq> - 8446743073709551616"
    by (simp add: StartTime_def entry1_def heap1_def)
  from r0 r1 a b c show ?thesis by blast
qed

text \<open>
  C5, amended. On a running entry \<open>SetDuration\<close> and \<open>SetStopTime\<close> return the
  invalid-state error and leave the entry and the store unchanged. On a stopped entry
  whose start instant is present, \<open>SetDuration d\<close> succeeds, changes only the duration
  (to \<open>d\<close>) and the stop pointer, and the stop time is \<open>start + d\<close> seconds whenever
  \<open>d\<close> seconds fit a Duration (\<open>|d| \<le> 9223372036\<close>); \<open>SetStopTime s\<close> succeeds, changes
  only the stop pointer and the duration, the stop time is \<open>s\<close>, and the duration is
  \<open>s - start\<close> in whole seconds whenever \<open>s - start\<close> fits a Duration.
\<close>

theorem SetDuration_SetStopTime_by_state:
  "(IsRunning e \<longrightarrow>
      SetDuration d h e = Inr (Some ''TimeEntry must be stopped'', h, e)
      \<and> SetStopTime s h e = Inr (Some ''TimeEntry must be stopped'', h, e))
   \<and> (\<not> IsRunning e \<and> Start e \<noteq> None \<and> valid h e \<longrightarrow>
      (\<exists>h' e'. SetDuration d h e = Inr (None, h', e')
         \<and> e' = e\<lparr>Duration := d, Stop := Stop e'\<rparr>
         \<and> StartTime h' e' = StartTime h e
         \<and> (- 9223372036 \<le> sint d \<and> sint d \<le> 9223372036 \<longrightarrow>
              StopTime h' e' = StartTime h e + sint d * 1000000000))
      \<and> (\<exists>h' e'. SetStopTime s h e = Inr (None, h', e')
         \<and> e' = e\<lparr>Stop := Stop e', Duration := Duration e'\<rparr>
         \<and> StartTime h' e' = StartTime h e
         \<and> StopTime h' e' = s
         \<and> (minDuration \<le> s - StartTime h e \<and> s - StartTime h e \<le> maxDuration \<longrightarrow>
              sint (Duration e') = whole_seconds (s - StartTime h e))))"
proof -
  have running: "IsRunning e \<longrightarrow>
      SetDuration d h e = Inr (Some ''TimeEntry must be stopped'', h, e)
      \<and> SetStopTime s h e = Inr (Some ''TimeEntry must be stopped'', h, e)"
    by (simp add: SetDuration_running SetStopTime_running)
  have stopped: "(\<exists>h' e'. SetDuration d h e = Inr (None, h', e')
         \<and> e' = e\<lparr>Duration := d, Stop := Stop e'\<rparr>
         \<and> StartTime h' e' = StartTime h e
         \<and> (- 9223372036 \<le> sint d \<and> sint d \<le> 9223372036 \<longrightarrow>
              StopTime h' e' = StartTime h e + sint d * 1000000000))
      \<and> (\<exists>h' e'. SetStopTime s h e = Inr (None, h', e')
         \<and> e' = e\<lparr>Stop := Stop e', Duration := Duration e'\<rparr>
         \<and> StartTime h' e' = StartTime h e
         \<and> StopTime h' e' = s
         \<and> (minDuration \<le> s - StartTime h e \<and> s - StartTime h e \<le> maxDuration \<longrightarrow>
              sint (Duration e') = whole_seconds (s - StartTime h e)))"
    if st: "\<not> IsRunning e" and sp: "Start e \<noteq> None" and v: "valid h e"
  proof -
    from sp obtain p where p: "Start e = Some p" by auto
    from valid_StartD [OF v p] have lt: "p < nxt h" .
    have start: "StartTime h e = cells h p" by (simp add: StartTime_def p)
    let ?hd = "snd (alloc (Add (cells h p) (d * Second)) h)"
    let ?ed = "e\<lparr>Duration := d, Stop := Some (nxt h)\<rparr>"
    have d1: "SetDuration d h e = Inr (None, ?hd, ?ed)"
      by (rule SetDuration_stopped [OF st p])
    have d2: "?ed = e\<lparr>Duration := d, Stop := Stop ?ed\<rparr>" by simp
    have d3: "StartTime ?hd ?ed = StartTime h e"
      using lt by (simp add: StartTime_def p alloc_simps)
    have d4: "- 9223372036 \<le> sint d \<and> sint d \<le> 9223372036 \<longrightarrow>
        StopTime ?hd ?ed = StartTime h e + sint d * 1000000000"
      by (simp add: StopTime_def alloc_simps start Add_def sint_mult_Second)
    let ?hs = "snd (alloc s h)"
    let ?es = "e\<lparr>Stop := Some (nxt h), Duration := go_quot (Sub s (cells h p)) Second\<rparr>"
    have s1: "SetStopTime s h e = Inr (None, ?hs, ?es)"
      by (rule SetStopTime_stopped [OF st p lt])
    have s2: "?es = e\<lparr>Stop := Stop ?es, Duration := Duration ?es\<rparr>" by simp
    have s3: "StartTime ?hs ?es = StartTime h e"
      using lt by (simp add: StartTime_def p alloc_simps)
    have s4: "StopTime ?hs ?es = s"
      by (simp add: StopTime_def alloc_simps)
    have s5: "minDuration \<le> s - StartTime h e \<and> s - StartTime h e \<le> maxDuration \<longrightarrow>
        sint (Duration ?es) = whole_seconds (s - StartTime h e)"
      by (simp add: start sint_go_quot_Second sint_Sub_exact)
    from d1 d2 d3 d4 s1 s2 s3 s4 s5 show ?thesis by blast
  qed
  from running stopped show ?thesis by blast
qed

theorem SetDuration_SetStopTime_by_state_witness:
  "IsRunning entry2
   \<and> SetDuration 5 heap1 entry2 = Inr (Some ''TimeEntry must be stopped'', heap1, entry2)
   \<and> SetStopTime 1700000000000 heap1 entry2 =
       Inr (Some ''TimeEntry must be stopped'', heap1, entry2)
   \<and> \<not> IsRunning entry1 \<and> Start entry1 \<noteq> None \<and> valid heap1 entry1
   \<and> (\<exists>h' e'. SetDuration 5 heap1 entry1 = Inr (None, h', e')
         \<and> StopTime h' e' = 1005000000000)
   \<and> (\<exists>h' e'. SetStopTime 1700000000000 heap1 entry1 = Inr (None, h', e')
         \<and> StopTime h' e' = 1700000000000 \<and> sint (Duration e') = 700)"
proof -
  have r2: "IsRunning entry2" by (simp add: IsRunning_iff entry2_def entry0_def)
  have r1: "\<not> IsRunning entry1" by (simp add: IsRunning_iff entry1_def entry0_def)
  have p1: "Start entry1 \<noteq> None" by (simp add: entry1_def)
  have v1: "valid heap1 entry1" by (simp add: valid_def entry1_def heap1_def)
  have st: "StartTime heap1 entry1 = 1000000000000"
    by (simp add: StartTime_def entry1_def heap1_def)
  have rng: "- 9223372036 \<le> sint (5 :: int64) \<and> sint (5 :: int64) \<le> 9223372036"
    "minDuration \<le> 1700000000000 - StartTime heap1 entry1
     \<and> 1700000000000 - StartTime heap1 entry1 \<le> maxDuration"
    by (simp_all add: st minDuration_def maxDuration_def)
  have ev: "StartTime heap1 entry1 + sint (5 :: int64) * 1000000000 = 1005000000000"
    "whole_seconds (1700000000000 - StartTime heap1 entry1) = 700"
    by (simp_all add: st whole_seconds_def)
  from SetDuration_SetStopTime_by_state [of entry2 5 heap1 1700000000000] r2
  have a: "SetDuration 5 heap1 entry2 = Inr (Some ''TimeEntry must be stopped'', heap1, entry2)"
    "SetStopTime 1700000000000 heap1 entry2 =
       Inr (Some ''TimeEntry must be stopped'', heap1, entry2)"
    by blast+
  from SetDuration_SetStopTime_by_state [of entry1 5 heap1 1700000000000] r1 p1 v1 rng
  have b: "\<exists>h' e'. SetDuration 5 heap1 entry1 = Inr (None, h', e')
         \<and> StopTime h' e' = StartTime heap1 entry1 + sint (5 :: int64) * 1000000000"
    and c: "\<exists>h' e'. SetStopTime 1700000000000 heap1 entry1 = Inr (None, h', e')
         \<and> StopTime h' e' = 1700000000000
         \<and> sint (Duration e') = whole_seconds (1700000000000 - StartTime heap1 entry1)"
    by blast+
  from r2 r1 p1 v1 a b c show ?thesis unfolding ev by blast
qed

lemma on_second_div_mult: "on_second t \<Longrightarrow> t div 1000000000 * 1000000000 = t"
  unfolding on_second_def by (simp add: dvd_div_mult_self mod_eq_0_iff_dvd)

text \<open>
  C6, as stated, fails: on a stopped entry whose stop instant is nil,
  \<open>SetStartTime\<close> with \<open>updateEnd = False\<close> panics; and with \<open>updateEnd = True\<close> on an
  entry whose duration is \<open>10^10\<close> seconds the product with \<open>Second\<close> wraps around, so
  that the new stop time is not \<open>newStart + duration\<close>.
\<close>

theorem SetStartTime_not_always_total:
  "\<not> IsRunning entry0
   \<and> SetStartTime 0 False heap1 entry0 = Inl NilDereference
   \<and> \<not> IsRunning entry3
   \<and> SetStartTime 0 True heap1 entry3 =
       Inr (snd (alloc (- 8446744073709551616) (snd (alloc 0 heap1))),
            entry3\<lparr>Start := Some 2, Stop := Some 3\<rparr>)
   \<and> 0 + sint (Duration entry3) * 1000000000 \<noteq> - 8446744073709551616"
proof -
  have r0: "\<not> IsRunning entry0" by (simp add: IsRunning_iff entry0_def)
  have r3: "\<not> IsRunning entry3" by (simp add: IsRunning_iff entry3_def)
  have a: "SetStartTime 0 False heap1 entry0 = Inl NilDereference"
    by (simp add: SetStartTime_def Let_def alloc_def IsRunning_iff entry0_def)
  have w: "Add 0 (Duration entry3 * Second) = - 8446744073709551616"
    by (simp add: Add_def entry3_def Second_def)
  have n: "nxt heap1 = 2" "Suc 2 = 3" by (simp_all add: heap1_def)
  have b: "SetStartTime 0 True heap1 entry3 =
       Inr (snd (alloc (- 8446744073709551616) (snd (alloc 0 heap1))),
            entry3\<lparr>Start := Some 2, Stop := Some 3\<rparr>)"
    by (simp only: SetStartTime_stopped_updateEnd [OF r3] w n)
  have c: "0 + sint (Duration entry3) * 1000000000 \<noteq> - 8446744073709551616"
    by (simp add: entry3_def)
  from r0 r3 a b c show ?thesis by blast
qed

text \<open>
  C6, amended. \<open>SetStartTime\<close> has no error result and always sets the start time to
  \<open>newStart\<close>. On a running entry it returns normally and changes only the start pointer
  (duration and stop time untouched). On a stopped entry with \<open>updateEnd = True\<close> it
  returns normally, keeps the duration, and the stop time is \<open>newStart + duration\<close>
  seconds whenever the duration is at most 9223372036 seconds. On a stopped entry with
  \<open>updateEnd = False\<close> whose stop instant is present it returns normally, keeps the stop
  time, and the duration is the difference of the two instants' Unix seconds whenever
  that fits 64 bits, which is \<open>stop - newStart\<close> in seconds when both lie on whole seconds.
\<close>

theorem SetStartTime_by_state:
  "(IsRunning e \<and> valid h e \<longrightarrow>
      (\<exists>h' e'. SetStartTime s u h e = Inr (h', e')
         \<and> e' = e\<lparr>Start := Start e'\<rparr>
         \<and> StartTime h' e' = s
         \<and> StopTime h' e' = StopTime h e))
   \<and> (\<not> IsRunning e \<longrightarrow>
      (\<exists>h' e'. SetStartTime s True h e = Inr (h', e')
         \<and> e' = e\<lparr>Start := Start e', Stop := Stop e'\<rparr>
         \<and> StartTime h' e' = s
         \<and> (sint (Duration e) \<le> 9223372036 \<longrightarrow>
              StopTime h' e' = s + sint (Duration e) * 1000000000)))
   \<and> (\<not> IsRunning e \<and> Stop e \<noteq> None \<and> valid h e \<longrightarrow>
      (\<exists>h' e'. SetStartTime s False h e = Inr (h', e')
         \<and> e' = e\<lparr>Start := Start e', Duration := Duration e'\<rparr>
         \<and> StartTime h' e' = s
         \<and> StopTime h' e' = StopTime h e
         \<and> (- (2 ^ 63) \<le> StopTime h e div 1000000000 - s div 1000000000
              \<and> StopTime h e div 1000000000 - s div 1000000000 < 2 ^ 63 \<longrightarrow>
              sint (Duration e') = StopTime h e div 1000000000 - s div 1000000000
              \<and> (on_second (StopTime h e) \<and> on_second s \<longrightarrow>
                   sint (Duration e') * 1000000000 = StopTime h e - s))))"
proof -
  have running: "\<exists>h' e'. SetStartTime s u h e = Inr (h', e')
         \<and> e' = e\<lparr>Start := Start e'\<rparr>
         \<and> StartTime h' e' = s
         \<and> StopTime h' e' = StopTime h e"
    if r: "IsRunning e" and v: "valid h e"
  proof -
    let ?h = "snd (alloc s h)"
    let ?e = "e\<lparr>Start := Some (nxt h)\<rparr>"
    have 1: "SetStartTime s u h e = Inr (?h, ?e)" by (rule SetStartTime_running [OF r])
    have 2: "?e = e\<lparr>Start := Start ?e\<rparr>" by simp
    have 3: "StartTime ?h ?e = s" by (simp add: StartTime_def alloc_simps)
    have 4: "StopTime ?h ?e = StopTime h e"
      using v by (auto simp: StopTime_def alloc_simps valid_def split: option.splits)
    from 1 2 3 4 show ?thesis by blast
  qed
  have upd: "\<exists>h' e'. SetStartTime s True h e = Inr (h', e')
         \<and> e' = e\<lparr>Start := Start e', Stop := Stop e'\<rparr>
         \<and> StartTime h' e' = s
         \<and> (sint (Duration e) \<le> 9223372036 \<longrightarrow>
              StopTime h' e' = s + sint (Duration e) * 1000000000)"
    if st: "\<not> IsRunning e"
  proof -
    let ?h = "snd (alloc (Add s (Duration e * Second)) (snd (alloc s h)))"
    let ?e = "e\<lparr>Start := Some (nxt h), Stop := Some (Suc (nxt h))\<rparr>"
    from st have nonneg: "0 \<le> sint (Duration e)" by (simp add: IsRunning_iff)
    have 1: "SetStartTime s True h e = Inr (?h, ?e)"
      by (rule SetStartTime_stopped_updateEnd [OF st])
    have 2: "?e = e\<lparr>Start := Start ?e, Stop := Stop ?e\<rparr>" by simp
    have 3: "StartTime ?h ?e = s" by (simp add: StartTime_def alloc_simps)
    have 4: "sint (Duration e) \<le> 9223372036 \<longrightarrow>
        StopTime ?h ?e = s + sint (Duration e) * 1000000000"
      using nonneg by (simp add: StopTime_def alloc_simps Add_def sint_mult_Second)
    from 1 2 3 4 show ?thesis by blast
  qed
  have keep: "\<exists>h' e'. SetStartTime s False h e = Inr (h', e')
         \<and> e' = e\<lparr>Start := Start e', Duration := Duration e'\<rparr>
         \<and> StartTime h' e' = s
         \<and> StopTime h' e' = StopTime h e
         \<and> (- (2 ^ 63) \<le> StopTime h e div 1000000000 - s div 1000000000
              \<and> StopTime h e div 1000000000 - s div 1000000000 < 2 ^ 63 \<longrightarrow>
              sint (Duration e') = StopTime h e div 1000000000 - s div 1000000000
              \<and> (on_second (StopTime h e) \<and> on_second s \<longrightarrow>
                   sint (Duration e') * 1000000000 = StopTime h e - s))"
    if st: "\<not> IsRunning e" and sp: "Stop e \<noteq> None" and v: "valid h e"
  proof -
    from sp obtain q where q: "Stop e = Some q" by auto
    from valid_StopD [OF v q] have lt: "q < nxt h" .
    have stop: "StopTime h e = cells h q" by (simp add: StopTime_def q)
    let ?h = "snd (alloc s h)"
    let ?e = "e\<lparr>Start := Some (nxt h), Duration := Unix (cells h q) - Unix s\<rparr>"
    have 1: "SetStartTime s False h e = Inr (?h, ?e)"
      by (rule SetStartTime_stopped_keepEnd [OF st q lt])
    have 2: "?e = e\<lparr>Start := Start ?e, Duration := Duration ?e\<rparr>" by simp
    have 3: "StartTime ?h ?e = s" by (simp add: StartTime_def alloc_simps)
    have 4: "StopTime ?h ?e = StopTime h e"
      using lt by (simp add: StopTime_def q alloc_simps)
    have 5: "sint (Duration ?e) = StopTime h e div 1000000000 - s div 1000000000"
      if "- (2 ^ 63) \<le> StopTime h e div 1000000000 - s div 1000000000"
        "StopTime h e div 1000000000 - s div 1000000000 < 2 ^ 63"
      using that by (simp add: stop sint_Unix_diff)
    have 6: "(StopTime h e div 1000000000 - s div 1000000000) * 1000000000 = StopTime h e - s"
      if "on_second (StopTime h e)" "on_second s"
      using that by (simp add: left_diff_distrib on_second_div_mult)
    have 7: "- (2 ^ 63) \<le> StopTime h e div 1000000000 - s div 1000000000
              \<and> StopTime h e div 1000000000 - s div 1000000000 < 2 ^ 63 \<longrightarrow>
              sint (Duration ?e) = StopTime h e div 1000000000 - s div 1000000000
              \<and> (on_second (StopTime h e) \<and> on_second s \<longrightarrow>
                   sint (Duration ?e) * 1000000000 = StopTime h e - s)"
      using 5 6 by simp
    show ?thesis
      by (intro exI [of _ ?h] exI [of _ ?e] conjI) (rule 1 2 3 4 7)+
  qed
  from running upd keep show ?thesis by blast
qed

theorem SetStartTime_by_state_witness:
  "IsRunning entry2 \<and> valid heap1 entry2
   \<and> (\<exists>h' e'. SetStartTime 900000000000 True heap1 entry2 = Inr (h', e')
         \<and> StartTime h' e' = 900000000000 \<and> e' = entry2\<lparr>Start := Start e'\<rparr>)
   \<and> \<not> IsRunning entry1 \<and> Stop entry1 \<noteq> None \<and> valid heap1 entry1
   \<and> (\<exists>h' e'. SetStartTime 900000000000 True heap1 entry1 = Inr (h', e')
         \<and> StartTime h' e' = 900000000000 \<and> StopTime h' e' = 1500000000000)
   \<and> (\<exists>h' e'. SetStartTime 900000000000 False heap1 entry1 = Inr (h', e')
         \<and> StopTime h' e' = 1600000000000 \<and> sint (Duration e') = 700)"
proof -
  have r2: "IsRunning entry2" by (simp add: IsRunning_iff entry2_def entry0_def)
  have v2: "valid heap1 entry2" by (simp add: valid_def entry2_def entry0_def heap1_def)
  have r1: "\<not> IsRunning entry1" by (simp add: IsRunning_iff entry1_def entry0_def)
  have p1: "Stop entry1 \<noteq> None" by (simp add: entry1_def)
  have v1: "valid heap1 entry1" by (simp add: valid_def entry1_def heap1_def)
  have st: "StopTime heap1 entry1 = 1600000000000"
    by (simp add: StopTime_def entry1_def heap1_def)
  have du: "sint (Duration entry1) = 600" by (simp add: entry1_def)
  have rng: "sint (Duration entry1) \<le> 9223372036"
    "- (2 ^ 63) \<le> StopTime heap1 entry1 div 1000000000 - 900000000000 div 1000000000
     \<and> StopTime heap1 entry1 div 1000000000 - 900000000000 div 1000000000 < 2 ^ 63"
    by (simp_all add: st du)
  have ev: "900000000000 + sint (Duration entry1) * 1000000000 = 1500000000000"
    "StopTime heap1 entry1 div 1000000000 - 900000000000 div 1000000000 = 700"
    by (simp_all add: st du)
  from SetStartTime_by_state [of entry2 heap1 900000000000 True] r2 v2
  have a: "\<exists>h' e'. SetStartTime 900000000000 True heap1 entry2 = Inr (h', e')
         \<and> StartTime h' e' = 900000000000 \<and> e' = entry2\<lparr>Start := Start e'\<rparr>"
    by blast
  from SetStartTime_by_state [of entry1 heap1 900000000000 True] r1 p1 v1 rng
  have b: "\<exists>h' e'. SetStartTime 900000000000 True heap1 entry1 = Inr (h', e')
         \<and> StartTime h' e' = 900000000000
         \<and> StopTime h' e' = 900000000000 + sint (Duration entry1) * 1000000000"
    and c: "\<exists>h' e'. SetStartTime 900000000000 False heap1 entry1 = Inr (h', e')
         \<and> StopTime h' e' = StopTime heap1 entry1
         \<and> sint (Duration e') = StopTime heap1 entry1 div 1000000000 - 900000000000 div 1000000000"
    by blast+
  note b' = b [unfolded ev]
  note c' = c [unfolded ev, unfolded st]
  from r2 v2 r1 p1 v1 a b' c' show ?thesis by blast
qed

section \<open>Copy\<close>

lemma store_same: "store p (cells h p) h = h"
  by (simp add: store_def)

lemma Copy_returns_same_pointers: "Copy h e = Inr (h, e)"
  by (cases "Start e"; cases "Stop e") (simp_all add: Copy_def assign_through_def store_same)

text \<open>
  C2 does not hold of the code. \<open>Copy\<close> hands back the entry with the very pointers of
  the original and an unchanged store: the start and stop instants are shared, not
  duplicated. For the stopped entry \<open>entry1\<close> (start at second 1000, in cell 0) the copy's
  start pointer is cell 0 too, and writing second 5000 through it changes the start time
  of the original from second 1000 to second 5000.
\<close>

theorem Copy_shares_start_instant:
  "Copy heap1 entry1 = Inr (heap1, entry1)
   \<and> Start entry1 = Some 0
   \<and> StartTime heap1 entry1 = 1000000000000
   \<and> StartTime (store 0 5000000000000 heap1) entry1 = 5000000000000"
proof -
  have a: "Copy heap1 entry1 = Inr (heap1, entry1)"
    by (simp add: Copy_def assign_through_def store_def entry1_def entry0_def heap1_def)
  have b: "Start entry1 = Some 0" by (simp add: entry1_def)
  have c: "StartTime heap1 entry1 = 1000000000000"
    by (simp add: StartTime_def entry1_def heap1_def)
  have d: "StartTime (store 0 5000000000000 heap1) entry1 = 5000000000000"
    by (simp add: StartTime_def store_def entry1_def heap1_def)
  from a b c d show ?thesis by blast
qed

section \<open>The duration identity along a sequence of calls\<close>

lemma whole_seconds_mult: "whole_seconds (k * 1000000000) = k"
proof -
  have "\<bar>k * 1000000000\<bar> div 1000000000 = \<bar>k\<bar>"
    by (simp add: abs_mult)
  moreover have "sgn (k * 1000000000) = sgn k"
    by (simp add: sgn_mult)
  ultimately show ?thesis
    by (simp add: whole_seconds_def mult_sgn_abs)
qed

lemma whole_seconds_nonneg: "0 \<le> x \<Longrightarrow> whole_seconds x = x div 1000000000"
  by (cases "x = 0") (simp_all add: whole_seconds_def)

lemma whole_seconds_bounds:
  assumes "0 \<le> x" "x \<le> maxDuration"
  shows "0 \<le> whole_seconds x" "whole_seconds x \<le> 9223372036"
proof -
  from assms(1) have w: "whole_seconds x = x div 1000000000" by (rule whole_seconds_nonneg)
  from assms(1) show "0 \<le> whole_seconds x" unfolding w by simp
  from assms(2) have "x \<le> 9223372036854775807" by (simp add: maxDuration_def)
  then have "x div 1000000000 \<le> 9223372036854775807 div 1000000000"
    by (rule zdiv_mono1) simp
  then show "whole_seconds x \<le> 9223372036" unfolding w by simp
qed

lemma div_diff_aligned:
  fixes a b :: int
  assumes "b mod 1000000000 \<le> a mod 1000000000"
  shows "a div 1000000000 - b div 1000000000 = (a - b) div 1000000000"
proof -
  let ?N = "1000000000 :: int"
  have a: "a = ?N * (a div ?N) + a mod ?N" by simp
  have b: "b = ?N * (b div ?N) + b mod ?N" by simp
  let ?r = "a mod ?N - b mod ?N"
  have split: "a - b = (a div ?N - b div ?N) * ?N + ?r"
    using a b by (simp add: algebra_simps)
  have r0: "0 \<le> ?r" using assms by simp
  have r1: "?r < ?N"
  proof -
    have "a mod ?N < ?N" by simp
    moreover have "0 \<le> b mod ?N" by simp
    ultimately show ?thesis by linarith
  qed
  have z: "?r div ?N = 0" using r0 r1 by (rule div_pos_pos_trivial)
  have "((a div ?N - b div ?N) * ?N + ?r) div ?N = (a div ?N - b div ?N) + ?r div ?N"
    by (rule div_mult_self3) simp
  with z have "((a div ?N - b div ?N) * ?N + ?r) div ?N = a div ?N - b div ?N"
    by (simp only: add_0_right)
  with split show ?thesis by (simp only:)
qed

lemma call_step:
  assumes st: "\<not> IsRunning e" and sp: "Start e \<noteq> None" and tp: "Stop e \<noteq> None"
    and v: "valid h e" and adm: "admissible c h e"
  shows "\<exists>h' e'. apply_call c h e = Inr (None, h', e')
      \<and> \<not> IsRunning e' \<and> Start e' \<noteq> None \<and> Stop e' \<noteq> None \<and> valid h' e'
      \<and> duration_identity h' e'"
proof -
  from sp obtain p where p: "Start e = Some p" by auto
  from tp obtain q where q: "Stop e = Some q" by auto
  from valid_StartD [OF v p] have pl: "p < nxt h" .
  from valid_StopD [OF v q] have ql: "q < nxt h" .
  have start: "StartTime h e = cells h p" by (simp add: StartTime_def p)
  have stop: "StopTime h e = cells h q" by (simp add: StopTime_def q)
  show ?thesis
  proof (cases c)
    case (CallSetDuration d)
    with adm have d: "0 \<le> sint d" "sint d \<le> 9223372036" by simp_all
    let ?h = "snd (alloc (Add (cells h p) (d * Second)) h)"
    let ?e = "e\<lparr>Duration := d, Stop := Some (nxt h)\<rparr>"
    have 1: "apply_call c h e = Inr (None, ?h, ?e)"
      by (simp add: CallSetDuration SetDuration_stopped [OF st p])
    have 2: "\<not> IsRunning ?e" using d by (simp add: IsRunning_iff)
    have 3: "Start ?e \<noteq> None" "Stop ?e \<noteq> None" by (simp_all add: p)
    have 4: "valid ?h ?e" using pl by (simp add: valid_def p alloc_simps)
    have "StopTime ?h ?e - StartTime ?h ?e = sint d * 1000000000"
      using pl d by (simp add: StopTime_def StartTime_def p alloc_simps Add_def sint_mult_Second)
    then have 5: "duration_identity ?h ?e"
      by (simp add: duration_identity_def whole_seconds_mult)
    from 1 2 3 4 5 show ?thesis by blast
  next
    case (CallSetStartTime s u)
    show ?thesis
    proof (cases u)
      case True
      with adm CallSetStartTime have hi: "sint (Duration e) \<le> 9223372036" by simp
      from st have lo: "0 \<le> sint (Duration e)" by (simp add: IsRunning_iff)
      let ?h = "snd (alloc (Add s (Duration e * Second)) (snd (alloc s h)))"
      let ?e = "e\<lparr>Start := Some (nxt h), Stop := Some (Suc (nxt h))\<rparr>"
      have 1: "apply_call c h e = Inr (None, ?h, ?e)"
        by (simp add: CallSetStartTime True SetStartTime_stopped_updateEnd [OF st])
      have 2: "\<not> IsRunning ?e" using st by (simp add: IsRunning_iff)
      have 3: "Start ?e \<noteq> None" "Stop ?e \<noteq> None" by simp_all
      have 4: "valid ?h ?e" by (simp add: valid_def alloc_simps)
      have "StopTime ?h ?e - StartTime ?h ?e = sint (Duration e) * 1000000000"
        using lo hi by (simp add: StopTime_def StartTime_def alloc_simps Add_def sint_mult_Second)
      then have 5: "duration_identity ?h ?e"
        by (simp add: duration_identity_def whole_seconds_mult)
      from 1 2 3 4 5 show ?thesis by blast
    next
      case False
      with adm CallSetStartTime have a: "0 \<le> cells h q - s" "cells h q - s \<le> maxDuration"
        "s mod 1000000000 \<le> cells h q mod 1000000000" by (simp_all add: stop)
      let ?h = "snd (alloc s h)"
      let ?e = "e\<lparr>Start := Some (nxt h), Duration := Unix (cells h q) - Unix s\<rparr>"
      have 1: "apply_call c h e = Inr (None, ?h, ?e)"
        by (simp add: CallSetStartTime False SetStartTime_stopped_keepEnd [OF st q ql])
      have k: "cells h q div 1000000000 - s div 1000000000 = whole_seconds (cells h q - s)"
        using a by (simp add: div_diff_aligned whole_seconds_nonneg)
      from whole_seconds_bounds [OF a(1,2)]
      have b: "0 \<le> whole_seconds (cells h q - s)" "whole_seconds (cells h q - s) \<le> 9223372036" .
      have du: "sint (Unix (cells h q) - Unix s) = whole_seconds (cells h q - s)"
        using b by (subst sint_Unix_diff) (simp_all add: k)
      have 2: "\<not> IsRunning ?e" using b du by (simp add: IsRunning_iff)
      have 3: "Start ?e \<noteq> None" "Stop ?e \<noteq> None" by (simp_all add: q)
      have 4: "valid ?h ?e" using ql by (simp add: valid_def q alloc_simps)
      have 5: "duration_identity ?h ?e"
        using ql du by (simp add: duration_identity_def StopTime_def StartTime_def q alloc_simps)
      from 1 2 3 4 5 show ?thesis by blast
    qed
  next
    case (CallSetStopTime s)
    with adm have a: "0 \<le> s - cells h p" "s - cells h p \<le> maxDuration"
      by (simp_all add: start)
    let ?h = "snd (alloc s h)"
    let ?e = "e\<lparr>Stop := Some (nxt h), Duration := go_quot (Sub s (cells h p)) Second\<rparr>"
    have 1: "apply_call c h e = Inr (None, ?h, ?e)"
      by (simp add: CallSetStopTime SetStopTime_stopped [OF st p pl])
    have "minDuration \<le> s - cells h p" using a(1) by (simp add: minDuration_def)
    then have du: "sint (go_quot (Sub s (cells h p)) Second) = whole_seconds (s - cells h p)"
      using a(2) by (simp add: sint_go_quot_Second sint_Sub_exact)
    from whole_seconds_bounds [OF a] have b: "0 \<le> whole_seconds (s - cells h p)" by simp
    have 2: "\<not> IsRunning ?e" using b du by (simp add: IsRunning_iff)
    have 3: "Start ?e \<noteq> None" "Stop ?e \<noteq> None" by (simp_all add: p)
    have 4: "valid ?h ?e" using pl by (simp add: valid_def p alloc_simps)
    have 5: "duration_identity ?h ?e"
      using pl du by (simp add: duration_identity_def StopTime_def StartTime_def p alloc_simps)
    from 1 2 3 4 5 show ?thesis by blast
  qed
qed

lemma run_admissible_calls:
  "\<not> IsRunning e \<Longrightarrow> Start e \<noteq> None \<Longrightarrow> Stop e \<noteq> None \<Longrightarrow> valid h e \<Longrightarrow>
   admissible_calls cs h e \<Longrightarrow>
   \<exists>sts. run_calls cs h e = Some sts \<and> length sts = length cs \<and> identity_in_all sts"
proof (induction cs arbitrary: h e)
  case Nil
  then show ?case by simp
next
  case (Cons c cs)
  from Cons.prems(5) have adm: "admissible c h e" by simp
  from call_step [OF Cons.prems(1-4) adm]
  obtain h' e' where s: "apply_call c h e = Inr (None, h', e')"
    "\<not> IsRunning e'" "Start e' \<noteq> None" "Stop e' \<noteq> None" "valid h' e'"
    "duration_identity h' e'" by blast
  from Cons.prems(5) s(1) have rest: "admissible_calls cs h' e'" by simp
  from Cons.IH [OF s(2-5) rest]
  obtain sts where r: "run_calls cs h' e' = Some sts" "length sts = length cs"
    "identity_in_all sts" by blast
  have "run_calls (c # cs) h e = Some ((h', e') # sts)" by (simp add: s(1) r(1))
  moreover have "length ((h', e') # sts) = length (c # cs)" by (simp add: r(2))
  moreover have "identity_in_all ((h', e') # sts)" by (simp add: s(2) s(6) r(3))
  ultimately show ?case by blast
qed

text \<open>
  C4, as stated, fails. \<open>entry1\<close> is stopped, has both instants and satisfies the
  identity. \<open>SetDuration (-5)\<close> succeeds on it and leaves it with a negative duration,
  that is, running; the following \<open>SetStartTime\<close> succeeds as well and, the entry being
  running, moves only the start time: the duration is \<open>-5\<close> while stop minus start is
  \<open>-1005\<close> seconds. Also with the entry stopped throughout: \<open>SetStartTime\<close> to
  second 1599.9 with \<open>updateEnd = False\<close> subtracts the Unix seconds of the two instants
  and sets the duration to 1, while stop minus start is a tenth of a second.
\<close>

theorem identity_broken_after_negative_duration:
  "\<not> IsRunning entry1 \<and> Start entry1 \<noteq> None \<and> Stop entry1 \<noteq> None \<and> valid heap1 entry1
   \<and> duration_identity heap1 entry1
   \<and> run_calls [CallSetDuration (- 5), CallSetStartTime 2000000000000 True] heap1 entry1 =
       Some [(snd (alloc 995000000000 heap1), entry1\<lparr>Duration := - 5, Stop := Some 2\<rparr>),
             (snd (alloc 2000000000000 (snd (alloc 995000000000 heap1))),
              entry1\<lparr>Duration := - 5, Stop := Some 2, Start := Some 3\<rparr>)]
   \<and> \<not> duration_identity (snd (alloc 2000000000000 (snd (alloc 995000000000 heap1))))
         (entry1\<lparr>Duration := - 5, Stop := Some 2, Start := Some 3\<rparr>)
   \<and> run_calls [CallSetStartTime 1599900000000 False] heap1 entry1 =
       Some [(snd (alloc 1599900000000 heap1), entry1\<lparr>Start := Some 2, Duration := 1\<rparr>)]
   \<and> \<not> IsRunning (entry1\<lparr>Start := Some 2, Duration := 1\<rparr>)
   \<and> \<not> duration_identity (snd (alloc 1599900000000 heap1))
         (entry1\<lparr>Start := Some 2, Duration := 1\<rparr>)"
proof -
  have r1: "\<not> IsRunning entry1" by (simp add: IsRunning_iff entry1_def entry0_def)
  have p1: "Start entry1 = Some 0" "Stop entry1 \<noteq> None" by (simp_all add: entry1_def)
  have v1: "valid heap1 entry1" by (simp add: valid_def entry1_def heap1_def)
  have i1: "duration_identity heap1 entry1"
    by (simp add: duration_identity_def StopTime_def StartTime_def entry1_def heap1_def
        whole_seconds_def)
  have w: "Add (cells heap1 0) (- 5 * Second) = 995000000000"
    by (simp add: Add_def heap1_def Second_def)
  have n: "nxt heap1 = 2" by (simp add: heap1_def)
  have a: "SetDuration (- 5) heap1 entry1 =
      Inr (None, snd (alloc 995000000000 heap1), entry1\<lparr>Duration := - 5, Stop := Some 2\<rparr>)"
    by (simp only: SetDuration_stopped [OF r1 p1(1)] w n)
  have r2: "IsRunning (entry1\<lparr>Duration := - 5, Stop := Some 2\<rparr>)"
    by (simp add: IsRunning_iff)
  have b: "SetStartTime 2000000000000 True (snd (alloc 995000000000 heap1))
        (entry1\<lparr>Duration := - 5, Stop := Some 2\<rparr>) =
      Inr (snd (alloc 2000000000000 (snd (alloc 995000000000 heap1))),
           entry1\<lparr>Duration := - 5, Stop := Some 2, Start := Some 3\<rparr>)"
    by (simp add: SetStartTime_running [OF r2] alloc_simps n)
  have run: "run_calls [CallSetDuration (- 5), CallSetStartTime 2000000000000 True] heap1 entry1 =
       Some [(snd (alloc 995000000000 heap1), entry1\<lparr>Duration := - 5, Stop := Some 2\<rparr>),
             (snd (alloc 2000000000000 (snd (alloc 995000000000 heap1))),
              entry1\<lparr>Duration := - 5, Stop := Some 2, Start := Some 3\<rparr>)]"
    by (simp add: a b)
  have bad: "\<not> duration_identity (snd (alloc 2000000000000 (snd (alloc 995000000000 heap1))))
         (entry1\<lparr>Duration := - 5, Stop := Some 2, Start := Some 3\<rparr>)"
    by (simp add: duration_identity_def StopTime_def StartTime_def alloc_simps n whole_seconds_def)
  have q1: "Stop entry1 = Some 1" "1 < nxt heap1" by (simp_all add: entry1_def heap1_def)
  have u: "Unix (cells heap1 1) - Unix 1599900000000 = 1"
    by (simp add: Unix_def heap1_def)
  have c: "SetStartTime 1599900000000 False heap1 entry1 =
      Inr (snd (alloc 1599900000000 heap1), entry1\<lparr>Start := Some 2, Duration := 1\<rparr>)"
    by (simp only: SetStartTime_stopped_keepEnd [OF r1 q1] u n)
  have run2: "run_calls [CallSetStartTime 1599900000000 False] heap1 entry1 =
       Some [(snd (alloc 1599900000000 heap1), entry1\<lparr>Start := Some 2, Duration := 1\<rparr>)]"
    by (simp add: c)
  have r3: "\<not> IsRunning (entry1\<lparr>Start := Some 2, Duration := 1\<rparr>)"
    by (simp add: IsRunning_iff)
  have bad2: "\<not> duration_identity (snd (alloc 1599900000000 heap1))
         (entry1\<lparr>Start := Some 2, Duration := 1\<rparr>)"
    by (simp add: duration_identity_def StopTime_def StartTime_def alloc_simps n whole_seconds_def
        entry1_def heap1_def)
  from r1 p1 v1 i1 run bad run2 r3 bad2 show ?thesis by simp
qed

text \<open>
  C4, amended. For every stopped entry (duration non-negative, start and stop instants
  present) and every sequence of \<open>SetStartTime\<close>, \<open>SetStopTime\<close> and \<open>SetDuration\<close>
  calls each of which is admissible where it is made (it keeps the entry stopped, the
  span from start to stop stays within a Duration, and a new start given with
  \<open>updateEnd = False\<close> has no larger fraction of a second than the stop time), every call
  succeeds, and after every call the entry is stopped and its duration is the stop time
  minus the start time in whole seconds.
\<close>

theorem identity_after_admissible_calls:
  assumes "\<not> IsRunning e" and "Start e \<noteq> None" and "Stop e \<noteq> None" and "valid h e"
    and "admissible_calls cs h e"
  shows "\<exists>sts. run_calls cs h e = Some sts \<and> length sts = length cs \<and> identity_in_all sts"
  using assms by (rule run_admissible_calls)

theorem identity_after_admissible_calls_witness:
  "\<not> IsRunning entry1 \<and> Start entry1 \<noteq> None \<and> Stop entry1 \<noteq> None \<and> valid heap1 entry1
   \<and> admissible_calls
        [CallSetDuration 100, CallSetStartTime 2000000000000 True,
         CallSetStartTime 1900000000000 False, CallSetStopTime 2500700000000] heap1 entry1
   \<and> (\<exists>sts. run_calls
        [CallSetDuration 100, CallSetStartTime 2000000000000 True,
         CallSetStartTime 1900000000000 False, CallSetStopTime 2500700000000] heap1 entry1
          = Some sts \<and> length sts = 4 \<and> identity_in_all sts)"
proof -
  have r1: "\<not> IsRunning entry1" by (simp add: IsRunning_iff entry1_def entry0_def)
  have p1: "Start entry1 \<noteq> None" "Stop entry1 \<noteq> None" by (simp_all add: entry1_def)
  have v1: "valid heap1 entry1" by (simp add: valid_def entry1_def heap1_def)
  have adm: "admissible_calls
        [CallSetDuration 100, CallSetStartTime 2000000000000 True,
         CallSetStartTime 1900000000000 False, CallSetStopTime 2500700000000] heap1 entry1"
    by (simp add: SetDuration_def SetStartTime_def SetStopTime_def IsRunning_iff Let_def
        alloc_def Add_def Second_def Unix_def StopTime_def StartTime_def maxDuration_def
        entry1_def entry0_def heap1_def)
  have len: "length
        [CallSetDuration 100, CallSetStartTime 2000000000000 True,
         CallSetStartTime 1900000000000 False, CallSetStopTime 2500700000000] = 4"
    by simp
  note res = identity_after_admissible_calls [OF r1 p1 v1 adm, unfolded len]
  from r1 p1 v1 adm res show ?thesis by blast
qed

section \<open>The resource cache: sweep, reads and writes\<close>

lemma sint_Since_exact:
  "0 \<le> now - ts \<Longrightarrow> now - ts \<le> maxDuration \<Longrightarrow> sint (Since now ts) = now - ts"
  by (simp add: Since_def sint_Sub_exact minDuration_def)

lemma expire_one_fields:
  "ttl (expire_one now c k) = ttl c"
  "stats (expire_one now c k) = stats c"
  "caches (expire_one now c k) rt = (if rt = k \<and> expired now c k then Some Map.empty else caches c rt)"
  "timestamp (expire_one now c k) rt = (if rt = k \<and> expired now c k then Some now else timestamp c rt)"
  by (simp_all add: expire_one_def expired_def split: option.splits)

lemma expired_expire_one_other:
  "k \<noteq> rt \<Longrightarrow> expired now (expire_one now c k) rt = expired now c rt"
  by (simp add: expired_def expire_one_fields split: option.splits)

lemma expireCacheIf_fields:
  "ttl (expireCacheIf now c) = ttl c"
  "stats (expireCacheIf now c) = stats c"
  by (simp_all add: expireCacheIf_def all_types_def expire_one_fields)

lemma caches_expireCacheIf:
  "caches (expireCacheIf now c) rt = (if expired now c rt then Some Map.empty else caches c rt)"
  by (cases rt) (simp_all add: expireCacheIf_def all_types_def expire_one_fields expired_expire_one_other)


lemma incr_present:
  "stats c rt = Some st \<Longrightarrow>
   incr rt k c = Inr (c\<lparr>stats := (stats c)(rt \<mapsto> st(k \<mapsto> (case st k of None \<Rightarrow> 0 | Some n \<Rightarrow> n) + 1))\<rparr>)"
  by (simp add: incr_def)

lemma hits_neq_misses: "hits \<noteq> misses"
  by (simp add: hits_def misses_def)

lemma counts_after_incr:
  assumes "stats c rt = Some st" and "incr rt k c = Inr c'"
  shows "hit_count c' rt = (if k = hits then hit_count c rt + 1 else hit_count c rt)"
    and "miss_count c' rt = (if k = misses then miss_count c rt + 1 else miss_count c rt)"
    and "caches c' = caches c" and "timestamp c' = timestamp c" and "ttl c' = ttl c"
  using assms by (auto simp: incr_def hit_count_def miss_count_def split: option.splits)

lemma counts_expireCacheIf:
  "hit_count (expireCacheIf now c) rt = hit_count c rt"
  "miss_count (expireCacheIf now c) rt = miss_count c rt"
  by (simp_all add: hit_count_def miss_count_def expireCacheIf_fields)


lemma Get_in_workspace:
  assumes st: "stats c0 rt = Some st"
    and part: "caches (expireCacheIf now c0) rt = Some part" and ws: "part wid = Some ws"
  shows "\<exists>c'. Get now rt wid eid c0 =
        Inr ((case ws eid of None \<Rightarrow> (None, False) | Some v \<Rightarrow> (v, True)), c')
      \<and> hit_count c' rt = hit_count c0 rt + 1 \<and> miss_count c' rt = miss_count c0 rt
      \<and> caches c' = caches (expireCacheIf now c0)
      \<and> timestamp c' = timestamp (expireCacheIf now c0)"
proof -
  let ?c = "expireCacheIf now c0"
  from st have st': "stats ?c rt = Some st" by (simp add: expireCacheIf_fields)
  from incr_present [OF st'] obtain c' where i: "incr rt hits ?c = Inr c'" by blast
  have g: "Get now rt wid eid c0 =
      Inr ((case ws eid of None \<Rightarrow> (None, False) | Some v \<Rightarrow> (v, True)), c')"
    by (simp add: Get_def Let_def part ws i split: option.splits)
  from counts_after_incr [OF st' i] g show ?thesis
    by (simp add: counts_expireCacheIf hits_neq_misses)
qed



lemma New_fields:
  "caches (New ttl0 now) rt = Some Map.empty"
  "timestamp (New ttl0 now) rt = Some now"
  "stats (New ttl0 now) rt = Some Map.empty"
  "ttl (New ttl0 now) = (if ttl0 = 0 then 5 * Minute else ttl0)"
  by (cases rt; simp add: New_def TypeMap_def Clear_def Let_def)+



lemma cache1_Projects:
  "caches cache1 Projects = Some [1 \<mapsto> [1 \<mapsto> Some 42]]"
  "timestamp cache1 Projects = Some 0"
  "stats cache1 Projects = Some Map.empty"
  "ttl cache1 = 300000000000"
  by (simp_all add: cache1_def cache0_def Set_def Let_def New_fields Minute_def Second_def)

lemma cache1_fresh_at_1: "\<not> expired 1 cache1 Projects"
  by (simp add: expired_def cache1_Projects Since_def Sub_def maxDuration_def minDuration_def
      word_sless_alt)

text \<open>
  C1 does not hold of the code. In \<open>cache1\<close> the kind \<open>Projects\<close> has a partition and
  workspace 1 a sub-partition that holds id 1 only. \<open>Get\<close> for the absent id 2 returns
  \<open>found = False\<close>, yet it increments the hit counter and leaves the miss counter alone.
\<close>

theorem Get_absent_id_counts_a_hit:
  "hit_count cache1 Projects = 0 \<and> miss_count cache1 Projects = 0
   \<and> (\<exists>c'. Get 1 Projects 1 2 cache1 = Inr ((None, False), c')
         \<and> hit_count c' Projects = 1 \<and> miss_count c' Projects = 0)"
proof -
  have h0: "hit_count cache1 Projects = 0" "miss_count cache1 Projects = 0"
    by (simp_all add: hit_count_def miss_count_def cache1_Projects)
  have part: "caches (expireCacheIf 1 cache1) Projects = Some [1 \<mapsto> [1 \<mapsto> Some 42]]"
    by (simp add: caches_expireCacheIf cache1_fresh_at_1 cache1_Projects)
  have ws: "[1 \<mapsto> [1 \<mapsto> Some (42::nat)]] (1::go_int) = Some [1 \<mapsto> Some 42]" by simp
  from Get_in_workspace [OF cache1_Projects(3) part ws, of 2] h0
  obtain c' where "Get 1 Projects 1 2 cache1 = Inr ((None, False), c')"
    "hit_count c' Projects = 1" "miss_count c' Projects = 0"
    by auto
  with h0 show ?thesis by blast
qed






section \<open>Unstopping a time entry: creation, then deletion\<close>

lemma UnstopTimeEntry_unfold:
  "UnstopTimeEntry tr timer now h w =
     (case startTimeEntry tr (unstop_request timer) (snd (alloc now h)) w of
        ((newEntry, Some e), h2, w1) \<Rightarrow> ((TimeEntry_zero, Some e), h2, w1)
      | ((newEntry, None), h2, w1) \<Rightarrow>
          (case DeleteTimeEntry tr timer w1 of
             ((data, Some e2), w2) \<Rightarrow>
               ((TimeEntry_zero, Some (''old entry not deleted: '' @ e2)), h2, w2)
           | ((data, None), w2) \<Rightarrow> ((newEntry, None), h2, w2)))"
  by (simp add: UnstopTimeEntry_def newStartEntryRequestData_def withMetadataFromTimeEntry_def
      unstop_request_def alloc_def Let_def split: prod.splits option.splits)

lemma sent_startTimeEntry:
  "sent (snd (snd (startTimeEntry tr req h w))) =
     sent w @ (case marshal tr h req of
                 Inl err \<Rightarrow> []
               | Inr body \<Rightarrow>
                   [(''POST'', TogglAPI @ generateResourceURL timeEntries (WorkspaceId req), Some body)])"
  by (simp add: startTimeEntry_def post_def session_request_def Let_def
      split: prod.splits sum.splits)

lemma sent_DeleteTimeEntry:
  "sent (snd (DeleteTimeEntry tr timer w)) =
     sent w @ [(''DELETE'', TogglAPI @ generateResourceURLWithID timeEntries (Wid timer) (ID timer), None)]"
  by (simp add: DeleteTimeEntry_def delete_def session_request_def Let_def split: prod.splits)

text \<open>
  C8. For a timer whose start time is set, \<open>UnstopTimeEntry\<close> submits a new entry that
  takes description, workspace, project, task, tags and billable flag from the timer
  and points to the timer's start instant, which still holds the original start time.
  Creation sends at most the one POST and never a DELETE. When creation fails, the
  error is returned and nothing more is sent. When creation succeeds, one DELETE for the
  timer's workspace and id follows and nothing after it; when that DELETE fails the
  result is the error \<open>old entry not deleted: ...\<close> and no entry, otherwise the new entry.
\<close>

theorem UnstopTimeEntry_create_then_delete:
  assumes "Start timer = Some p" and "p < nxt h"
  shows
    "Start_c (unstop_request timer) = Some p
     \<and> cells (snd (alloc now h)) p = StartTime h timer
     \<and> Description_c (unstop_request timer) = Description timer
     \<and> WorkspaceId (unstop_request timer) = Wid timer
     \<and> ProjectID (unstop_request timer) = Pid timer
     \<and> TaskID (unstop_request timer) = Tid timer
     \<and> Tags_c (unstop_request timer) = Tags timer
     \<and> Billable_c (unstop_request timer) = Billable timer
     \<and> sent (snd (snd (startTimeEntry tr (unstop_request timer) (snd (alloc now h)) w))) =
         sent w @ (case marshal tr (snd (alloc now h)) (unstop_request timer) of
                     Inl err \<Rightarrow> []
                   | Inr body \<Rightarrow>
                       [(''POST'', TogglAPI @ generateResourceURL timeEntries (Wid timer), Some body)])
     \<and> (\<forall>e. snd (fst (startTimeEntry tr (unstop_request timer) (snd (alloc now h)) w)) = Some e \<longrightarrow>
           UnstopTimeEntry tr timer now h w =
             ((TimeEntry_zero, Some e),
              snd (startTimeEntry tr (unstop_request timer) (snd (alloc now h)) w)))
     \<and> (snd (fst (startTimeEntry tr (unstop_request timer) (snd (alloc now h)) w)) = None \<longrightarrow>
           sent (snd (snd (UnstopTimeEntry tr timer now h w))) =
             sent (snd (snd (startTimeEntry tr (unstop_request timer) (snd (alloc now h)) w)))
             @ [(''DELETE'',
                 TogglAPI @ generateResourceURLWithID timeEntries (Wid timer) (ID timer), None)]
           \<and> (\<forall>e2. snd (fst (DeleteTimeEntry tr timer
                       (snd (snd (startTimeEntry tr (unstop_request timer) (snd (alloc now h)) w)))))
                     = Some e2 \<longrightarrow>
                 fst (UnstopTimeEntry tr timer now h w) =
                   (TimeEntry_zero, Some (''old entry not deleted: '' @ e2)))
           \<and> (snd (fst (DeleteTimeEntry tr timer
                       (snd (snd (startTimeEntry tr (unstop_request timer) (snd (alloc now h)) w)))))
                     = None \<longrightarrow>
                 fst (UnstopTimeEntry tr timer now h w) =
                   (fst (fst (startTimeEntry tr (unstop_request timer) (snd (alloc now h)) w)), None)))"
proof -
  let ?cr = "startTimeEntry tr (unstop_request timer) (snd (alloc now h)) w"
  let ?dl = "DeleteTimeEntry tr timer (snd (snd ?cr))"
  have req: "Start_c (unstop_request timer) = Some p"
    "Description_c (unstop_request timer) = Description timer"
    "WorkspaceId (unstop_request timer) = Wid timer"
    "ProjectID (unstop_request timer) = Pid timer"
    "TaskID (unstop_request timer) = Tid timer"
    "Tags_c (unstop_request timer) = Tags timer"
    "Billable_c (unstop_request timer) = Billable timer"
    by (simp_all add: unstop_request_def assms(1))
  have cell: "cells (snd (alloc now h)) p = StartTime h timer"
    using assms by (simp add: alloc_simps StartTime_def)
  have posted: "sent (snd (snd ?cr)) =
         sent w @ (case marshal tr (snd (alloc now h)) (unstop_request timer) of
                     Inl err \<Rightarrow> []
                   | Inr body \<Rightarrow>
                       [(''POST'', TogglAPI @ generateResourceURL timeEntries (Wid timer), Some body)])"
    by (simp add: sent_startTimeEntry req split: sum.splits)
  have failed: "\<forall>e. snd (fst ?cr) = Some e \<longrightarrow>
      UnstopTimeEntry tr timer now h w = ((TimeEntry_zero, Some e), snd ?cr)"
    by (auto simp: UnstopTimeEntry_unfold split: prod.splits option.splits)
  have created: "sent (snd (snd (UnstopTimeEntry tr timer now h w))) =
             sent (snd (snd ?cr))
             @ [(''DELETE'',
                 TogglAPI @ generateResourceURLWithID timeEntries (Wid timer) (ID timer), None)]
           \<and> (\<forall>e2. snd (fst ?dl) = Some e2 \<longrightarrow>
                 fst (UnstopTimeEntry tr timer now h w) =
                   (TimeEntry_zero, Some (''old entry not deleted: '' @ e2)))
           \<and> (snd (fst ?dl) = None \<longrightarrow>
                 fst (UnstopTimeEntry tr timer now h w) = (fst (fst ?cr), None))"
    if ok: "snd (fst ?cr) = None"
  proof -
    obtain newEntry h2 w1 where cr: "?cr = ((newEntry, None), h2, w1)"
      using ok by (cases ?cr) auto
    obtain data err2 w2 where dl: "DeleteTimeEntry tr timer w1 = ((data, err2), w2)"
      by (cases "DeleteTimeEntry tr timer w1") auto
    from sent_DeleteTimeEntry [of tr timer w1] dl
    have s2: "sent w2 = sent w1
        @ [(''DELETE'', TogglAPI @ generateResourceURLWithID timeEntries (Wid timer) (ID timer), None)]"
      by simp
    show ?thesis
      by (cases err2) (simp_all add: UnstopTimeEntry_unfold cr dl s2)
  qed
  from req cell posted failed created show ?thesis by blast
qed

theorem UnstopTimeEntry_create_then_delete_witness:
  "Start entry1 = Some 0 \<and> 0 < nxt heap1
   \<and> fst (UnstopTimeEntry (sample_transport True) entry1 5 heap1 world0) =
       (TimeEntry_zero, Some ''old entry not deleted: response error: 404 Not Found'')
   \<and> sent (snd (snd (UnstopTimeEntry (sample_transport True) entry1 5 heap1 world0))) =
       [(''POST'', ''https://api.track.toggl.com/api/v9/workspaces/1/time_entries'', Some ''work''),
        (''DELETE'', ''https://api.track.toggl.com/api/v9/workspaces/1/time_entries/7'', None)]
   \<and> fst (UnstopTimeEntry (sample_transport False) entry1 5 heap1 world0) =
       (entry2\<lparr>ID := 8\<rparr>, None)
   \<and> fst (UnstopTimeEntry failing_transport entry1 5 heap1 world0) =
       (TimeEntry_zero, Some ''response error: 500 Internal Server Error'')
   \<and> sent (snd (snd (UnstopTimeEntry failing_transport entry1 5 heap1 world0))) =
       [(''POST'', ''https://api.track.toggl.com/api/v9/workspaces/1/time_entries'', Some ''work'')]"
proof -
  let ?post = "(''POST'', ''https://api.track.toggl.com/api/v9/workspaces/1/time_entries'', Some ''work'')"
  let ?del = "(''DELETE'', ''https://api.track.toggl.com/api/v9/workspaces/1/time_entries/7'', None)"
  have sp: "Start entry1 = Some 0" by (simp add: entry1_def)
  have lt: "0 < nxt heap1" by (simp add: heap1_def)
  have ids: "Wid entry1 = 1" "ID entry1 = 7" "Description entry1 = ''work''"
    by (simp_all add: entry1_def entry0_def)
  have url: "TogglAPI @ generateResourceURL timeEntries 1 =
      ''https://api.track.toggl.com/api/v9/workspaces/1/time_entries''"
    "TogglAPI @ generateResourceURLWithID timeEntries 1 7 =
      ''https://api.track.toggl.com/api/v9/workspaces/1/time_entries/7''"
    by (simp_all add: TogglAPI_def generateResourceURLWithID_def generateResourceURL_def
        format_int_def nat_digits.simps digit_char_def)
  have cr: "startTimeEntry (sample_transport r) (unstop_request entry1) (snd (alloc 5 heap1)) world0 =
      ((entry2\<lparr>ID := 8\<rparr>, None), snd (alloc 5 heap1), \<lparr>server = Suc 0, sent = [?post]\<rparr>)" for r
    by (simp add: startTimeEntry_def post_def session_request_def handleTimeEntryResponse_def
        sample_transport_def unstop_request_def world0_def ids url Let_def)
  have dl: "DeleteTimeEntry (sample_transport r) entry1 \<lparr>server = Suc 0, sent = [?post]\<rparr> =
      ((if r then ([], Some ''response error: 404 Not Found'') else (''{}'', None)),
       \<lparr>server = Suc (Suc 0), sent = [?post, ?del]\<rparr>)" for r
    by (simp add: DeleteTimeEntry_def delete_def session_request_def sample_transport_def ids url
        Let_def)
  have crf: "startTimeEntry failing_transport (unstop_request entry1) (snd (alloc 5 heap1)) world0 =
      ((TimeEntry_zero, Some ''response error: 500 Internal Server Error''),
       snd (alloc 5 heap1), \<lparr>server = Suc 0, sent = [?post]\<rparr>)"
    by (simp add: startTimeEntry_def post_def session_request_def handleTimeEntryResponse_def
        failing_transport_def unstop_request_def world0_def ids url Let_def)
  note t = UnstopTimeEntry_create_then_delete [OF sp lt, of 5 "sample_transport True" world0]
  note f = UnstopTimeEntry_create_then_delete [OF sp lt, of 5 "sample_transport False" world0]
  note x = UnstopTimeEntry_create_then_delete [OF sp lt, of 5 failing_transport world0]
  have ok: "snd (fst (startTimeEntry (sample_transport r) (unstop_request entry1)
      (snd (alloc 5 heap1)) world0)) = None" for r
    by (simp add: cr)
  have ko: "snd (fst (startTimeEntry failing_transport (unstop_request entry1)
      (snd (alloc 5 heap1)) world0)) = Some ''response error: 500 Internal Server Error''"
    by (simp add: crf)
  have dT: "snd (fst (DeleteTimeEntry (sample_transport True) entry1
      (snd (snd (startTimeEntry (sample_transport True) (unstop_request entry1)
        (snd (alloc 5 heap1)) world0))))) = Some ''response error: 404 Not Found''"
    by (simp add: cr dl)
  have dF: "snd (fst (DeleteTimeEntry (sample_transport False) entry1
      (snd (snd (startTimeEntry (sample_transport False) (unstop_request entry1)
        (snd (alloc 5 heap1)) world0))))) = None"
    by (simp add: cr dl)
  from t ok [of True] dT
  have a: "fst (UnstopTimeEntry (sample_transport True) entry1 5 heap1 world0) =
       (TimeEntry_zero, Some (''old entry not deleted: '' @ ''response error: 404 Not Found''))"
    and b0: "sent (snd (snd (UnstopTimeEntry (sample_transport True) entry1 5 heap1 world0))) =
       sent (snd (snd (startTimeEntry (sample_transport True) (unstop_request entry1)
         (snd (alloc 5 heap1)) world0)))
       @ [(''DELETE'',
           TogglAPI @ generateResourceURLWithID timeEntries (Wid entry1) (ID entry1), None)]"
    by blast+
  from b0 have b: "sent (snd (snd (UnstopTimeEntry (sample_transport True) entry1 5 heap1 world0))) =
       [?post, ?del]"
    by (simp add: cr ids url)
  from f ok [of False] dF
  have c0: "fst (UnstopTimeEntry (sample_transport False) entry1 5 heap1 world0) =
       (fst (fst (startTimeEntry (sample_transport False) (unstop_request entry1)
         (snd (alloc 5 heap1)) world0)), None)"
    by blast
  then have c: "fst (UnstopTimeEntry (sample_transport False) entry1 5 heap1 world0) =
       (entry2\<lparr>ID := 8\<rparr>, None)"
    by (simp add: cr)
  from x ko
  have d0: "UnstopTimeEntry failing_transport entry1 5 heap1 world0 =
       ((TimeEntry_zero, Some ''response error: 500 Internal Server Error''),
        snd (startTimeEntry failing_transport (unstop_request entry1) (snd (alloc 5 heap1)) world0))"
    by blast
  then have d: "fst (UnstopTimeEntry failing_transport entry1 5 heap1 world0) =
       (TimeEntry_zero, Some ''response error: 500 Internal Server Error'')"
    and e: "sent (snd (snd (UnstopTimeEntry failing_transport entry1 5 heap1 world0))) = [?post]"
    by (simp_all add: crf)
  from a have a': "fst (UnstopTimeEntry (sample_transport True) entry1 5 heap1 world0) =
       (TimeEntry_zero, Some ''old entry not deleted: response error: 404 Not Found'')"
    by simp
  from sp lt a' b c d e show ?thesis by blast
qed

end
